theory Spec2Isabelle
  imports Complex_Main "HOL-Library.Word"
begin

section \<open>Double-precision values\<close>

text \<open>
  Every number of the filter and of the sampling program is a C++ \<open>double\<close>. The model
  keeps the special values of IEEE 754 that decide what the code does when it divides by
  zero: a double is a finite real, one of the two infinities, or not-a-number. Finite
  arithmetic on this type is exact and the sign of zero is not modelled (a zero behaves
  as \<open>+0\<close>); rounding, underflow and overflow are added in the next section.
\<close>

datatype double = Fin real | PInf | NInf | NaN

fun is_fin :: "double \<Rightarrow> bool" where
  "is_fin (Fin x) = True"
| "is_fin PInf = False"
| "is_fin NInf = False"
| "is_fin NaN = False"

instantiation double :: "{plus, minus, uminus, times, inverse}"
begin

fun uminus_double :: "double \<Rightarrow> double" where
  "uminus_double (Fin x) = Fin (- x)"
| "uminus_double PInf = NInf"
| "uminus_double NInf = PInf"
| "uminus_double NaN = NaN"

fun plus_double :: "double \<Rightarrow> double \<Rightarrow> double" where
  "plus_double (Fin x) (Fin y) = Fin (x + y)"
| "plus_double NaN b = NaN"
| "plus_double a NaN = NaN"
| "plus_double PInf NInf = NaN"
| "plus_double NInf PInf = NaN"
| "plus_double PInf b = PInf"
| "plus_double NInf b = NInf"
| "plus_double a PInf = PInf"
| "plus_double a NInf = NInf"

definition minus_double :: "double \<Rightarrow> double \<Rightarrow> double" where
  "minus_double a b = a + (- b)"

fun times_double :: "double \<Rightarrow> double \<Rightarrow> double" where
  "times_double (Fin x) (Fin y) = Fin (x * y)"
| "times_double NaN b = NaN"
| "times_double a NaN = NaN"
| "times_double (Fin x) PInf = (if x = 0 then NaN else if 0 < x then PInf else NInf)"
| "times_double (Fin x) NInf = (if x = 0 then NaN else if 0 < x then NInf else PInf)"
| "times_double PInf (Fin y) = (if y = 0 then NaN else if 0 < y then PInf else NInf)"
| "times_double NInf (Fin y) = (if y = 0 then NaN else if 0 < y then NInf else PInf)"
| "times_double PInf PInf = PInf"
| "times_double PInf NInf = NInf"
| "times_double NInf PInf = NInf"
| "times_double NInf NInf = PInf"

fun divide_double :: "double \<Rightarrow> double \<Rightarrow> double" where
  "divide_double (Fin x) (Fin y) =
     (if y = 0 then (if x = 0 then NaN else if 0 < x then PInf else NInf)
      else Fin (x / y))"
| "divide_double NaN b = NaN"
| "divide_double a NaN = NaN"
| "divide_double (Fin x) PInf = Fin 0"
| "divide_double (Fin x) NInf = Fin 0"
| "divide_double PInf (Fin y) = (if 0 \<le> y then PInf else NInf)"
| "divide_double NInf (Fin y) = (if 0 \<le> y then NInf else PInf)"
| "divide_double PInf PInf = NaN"
| "divide_double PInf NInf = NaN"
| "divide_double NInf PInf = NaN"
| "divide_double NInf NInf = NaN"

fun inverse_double :: "double \<Rightarrow> double" where
  "inverse_double (Fin y) = (if y = 0 then PInf else Fin (1 / y))"
| "inverse_double PInf = Fin 0"
| "inverse_double NInf = Fin 0"
| "inverse_double NaN = NaN"

instance ..

end

text \<open>The functions of \<open><math.h>\<close> the code calls, with their special cases (C99, Annex F).\<close>

fun dsqrt :: "double \<Rightarrow> double" where
  "dsqrt (Fin x) = (if x < 0 then NaN else Fin (sqrt x))"
| "dsqrt PInf = PInf"
| "dsqrt NInf = NaN"
| "dsqrt NaN = NaN"

fun dasin :: "double \<Rightarrow> double" where
  "dasin (Fin x) = (if \<bar>x\<bar> \<le> 1 then Fin (arcsin x) else NaN)"
| "dasin PInf = NaN"
| "dasin NInf = NaN"
| "dasin NaN = NaN"

definition atan2_real :: "real \<Rightarrow> real \<Rightarrow> real" where
  "atan2_real y x =
     (if 0 < x then arctan (y / x)
      else if x < 0 then (if 0 \<le> y then arctan (y / x) + pi else arctan (y / x) - pi)
      else if 0 < y then pi / 2
      else if y < 0 then - (pi / 2)
      else 0)"

fun datan2 :: "double \<Rightarrow> double \<Rightarrow> double" where
  "datan2 (Fin y) (Fin x) = Fin (atan2_real y x)"
| "datan2 NaN x = NaN"
| "datan2 y NaN = NaN"
| "datan2 (Fin y) PInf = Fin 0"
| "datan2 (Fin y) NInf = (if 0 \<le> y then Fin pi else Fin (- pi))"
| "datan2 PInf (Fin x) = Fin (pi / 2)"
| "datan2 NInf (Fin x) = Fin (- (pi / 2))"
| "datan2 PInf PInf = Fin (pi / 4)"
| "datan2 NInf PInf = Fin (- (pi / 4))"
| "datan2 PInf NInf = Fin (3 * pi / 4)"
| "datan2 NInf NInf = Fin (- (3 * pi / 4))"

section \<open>Rounded double-precision arithmetic\<close>

text \<open>
  IEEE 754 binary64 with rounding to nearest, ties to even: 53 bits of precision,
  exponents from -1022 to 1023, subnormal numbers down to \<open>2 ^ - 1074\<close>, overflow to
  infinity. \<open>round64 x\<close> is the double nearest to the real \<open>x\<close>: the unit in the last
  place of \<open>x\<close> is \<open>2\<close> to the power \<open>ulp_exponent x\<close>, and \<open>x\<close> is rounded to the
  nearest multiple of it.
\<close>

definition round_even :: "real \<Rightarrow> int" where
  "round_even y =
     (let f = \<lfloor>y\<rfloor>; d = y - of_int f
      in if d < 1 / 2 then f
         else if 1 / 2 < d then f + 1
         else if even f then f else f + 1)"

definition ulp_exponent :: "real \<Rightarrow> int" where
  "ulp_exponent x = max \<lfloor>log 2 \<bar>x\<bar>\<rfloor> (- 1022) - 52"

definition round64 :: "real \<Rightarrow> double" where
  "round64 x =
     (if x = 0 then Fin 0
      else let ulp = 2 powr of_int (ulp_exponent x);
               y = of_int (round_even (x / ulp)) * ulp
           in if 2 ^ 1024 \<le> \<bar>y\<bar> then (if 0 < x then PInf else NInf) else Fin y)"

text \<open>A finite result is rounded; an infinity or NaN stays what it is.\<close>

fun rd :: "double \<Rightarrow> double" where
  "rd (Fin x) = round64 x"
| "rd PInf = PInf"
| "rd NInf = NInf"
| "rd NaN = NaN"

text \<open>
  A double of the running program. Each operation is the operation above followed by
  rounding: the correctly rounded result of the exact operation, as IEEE 754 defines
  \<open>+\<close>, \<open>-\<close>, \<open>*\<close>, \<open>/\<close> and \<open>sqrt\<close>, with no fused multiply-add and no
  wider intermediate precision. The sign of zero is not modelled.
\<close>

datatype binary64 = B64 (the_double: double)

instantiation binary64 :: "{plus, minus, uminus, times, inverse}"
begin

fun uminus_binary64 :: "binary64 \<Rightarrow> binary64" where
  "uminus_binary64 (B64 a) = B64 (- a)"

fun plus_binary64 :: "binary64 \<Rightarrow> binary64 \<Rightarrow> binary64" where
  "plus_binary64 (B64 a) (B64 b) = B64 (rd (a + b))"

fun minus_binary64 :: "binary64 \<Rightarrow> binary64 \<Rightarrow> binary64" where
  "minus_binary64 (B64 a) (B64 b) = B64 (rd (a - b))"

fun times_binary64 :: "binary64 \<Rightarrow> binary64 \<Rightarrow> binary64" where
  "times_binary64 (B64 a) (B64 b) = B64 (rd (a * b))"

fun divide_binary64 :: "binary64 \<Rightarrow> binary64 \<Rightarrow> binary64" where
  "divide_binary64 (B64 a) (B64 b) = B64 (rd (a / b))"

fun inverse_binary64 :: "binary64 \<Rightarrow> binary64" where
  "inverse_binary64 (B64 a) = B64 (rd (Fin 1 / a))"

instance ..

end

fun sqrt64 :: "binary64 \<Rightarrow> binary64" where
  "sqrt64 (B64 a) = B64 (rd (dsqrt a))"

text \<open>A floating-point literal of the source: the double nearest to the decimal.\<close>

definition lit :: "real \<Rightarrow> binary64" where
  "lit x = B64 (round64 x)"

section \<open>The orientation filter (MARGfilter.cpp)\<close>

text \<open>
  The members of class \<open>MARGfilter\<close>. The header that declares them is not part of the
  sources; the members are those the member functions read and write, \<open>firstUpdate\<close>
  an integer flag and all others doubles.
\<close>

record MARGfilter =
  firstUpdate :: int
  AEq_1 :: double
  AEq_2 :: double
  AEq_3 :: double
  AEq_4 :: double
  SEq_1 :: double
  SEq_2 :: double
  SEq_3 :: double
  SEq_4 :: double
  deltat :: double
  gyroMeasError :: double
  gyroMeasDrift :: double
  b_x :: double
  b_z :: double
  w_bx :: double
  w_by :: double
  w_bz :: double
  beta :: double
  zeta :: double
  phi :: double
  theta :: double
  psi :: double

text \<open>Three and four doubles: a measurement or a rate, and a quaternion.\<close>

type_synonym vec3 = "double \<times> double \<times> double"
type_synonym quat = "double \<times> double \<times> double \<times> double"

text \<open>Modelled from the spec: the macro \<open>PI\<close> of the missing header, the constant pi.\<close>

definition PI :: double where
  "PI = Fin pi"

text \<open>
  The constructor (lines 41-75). A C++ constructor runs on storage that already holds
  something: \<open>mem\<close> is that storage, and the constructor assigns the members it names.
\<close>

definition MARGfilter_ctor :: "MARGfilter \<Rightarrow> double \<Rightarrow> double \<Rightarrow> double \<Rightarrow> MARGfilter" where
  "MARGfilter_ctor mem rate gyroscopeMeasurementError gyroscopeMeasurementDrift =
     mem\<lparr>firstUpdate := 0,
         AEq_1 := Fin 1, AEq_2 := Fin 0, AEq_3 := Fin 0, AEq_4 := Fin 0,
         SEq_1 := Fin 1, SEq_2 := Fin 0, SEq_3 := Fin 0, SEq_4 := Fin 0,
         deltat := rate,
         gyroMeasError := gyroscopeMeasurementError,
         gyroMeasDrift := gyroscopeMeasurementDrift,
         b_x := Fin 1, b_z := Fin 0,
         w_bx := Fin 0, w_by := Fin 0, w_bz := Fin 0,
         beta := dsqrt (Fin 3 / Fin 4) * (PI * (gyroscopeMeasurementError / Fin 180)),
         zeta := dsqrt (Fin 3 / Fin 4) * (PI * (gyroscopeMeasurementDrift / Fin 180))\<rparr>"

text \<open>\<open>reset\<close> (lines 258-281).\<close>

definition reset :: "MARGfilter \<Rightarrow> MARGfilter" where
  "reset st =
     st\<lparr>firstUpdate := 0,
        AEq_1 := Fin 1, AEq_2 := Fin 0, AEq_3 := Fin 0, AEq_4 := Fin 0,
        SEq_1 := Fin 1, SEq_2 := Fin 0, SEq_3 := Fin 0, SEq_4 := Fin 0,
        b_x := Fin 1, b_z := Fin 0,
        w_bx := Fin 0, w_by := Fin 0, w_bz := Fin 0\<rparr>"

text \<open>
  \<open>computeEuler\<close> (lines 214-238), in two steps: the quaternion \<open>ASq\<close> of the sensor
  relative to the auxiliary frame (lines 221-231), and the angles computed from it
  (lines 233-236).
\<close>

definition ASq :: "MARGfilter \<Rightarrow> quat" where
  "ASq st =
     (let ESq_1 = SEq_1 st;
          ESq_2 = - SEq_2 st;
          ESq_3 = - SEq_3 st;
          ESq_4 = - SEq_4 st
      in (ESq_1 * AEq_1 st - ESq_2 * AEq_2 st - ESq_3 * AEq_3 st - ESq_4 * AEq_4 st,
          ESq_1 * AEq_2 st + ESq_2 * AEq_1 st + ESq_3 * AEq_4 st - ESq_4 * AEq_3 st,
          ESq_1 * AEq_3 st - ESq_2 * AEq_4 st + ESq_3 * AEq_1 st + ESq_4 * AEq_2 st,
          ESq_1 * AEq_4 st + ESq_2 * AEq_3 st - ESq_3 * AEq_2 st + ESq_4 * AEq_1 st))"

definition computeEuler :: "MARGfilter \<Rightarrow> MARGfilter" where
  "computeEuler st =
     (case ASq st of (ASq_1, ASq_2, ASq_3, ASq_4) \<Rightarrow>
        st\<lparr>phi := datan2 (Fin 2 * ASq_3 * ASq_4 - Fin 2 * ASq_1 * ASq_2)
                       (Fin 2 * ASq_1 * ASq_1 + Fin 2 * ASq_4 * ASq_4 - Fin 1),
           theta := dasin (Fin 2 * ASq_2 * ASq_3 - Fin 2 * ASq_1 * ASq_3),
           psi := datan2 (Fin 2 * ASq_2 * ASq_3 - Fin 2 * ASq_1 * ASq_4)
                       (Fin 2 * ASq_1 * ASq_1 + Fin 2 * ASq_2 * ASq_2 - Fin 1)\<rparr>)"

text \<open>The getters (lines 240-256) return a member and change nothing.\<close>

definition getRoll :: "MARGfilter \<Rightarrow> double" where
  "getRoll st = phi st"

definition getPitch :: "MARGfilter \<Rightarrow> double" where
  "getPitch st = theta st"

definition getYaw :: "MARGfilter \<Rightarrow> double" where
  "getYaw st = psi st"


subsection \<open>updateFilter (lines 77-212)\<close>

text \<open>
  The body of \<open>updateFilter\<close> is embedded block by block, each block a function of the
  values it reads; \<open>updateFilter\<close> below chains them in the order of the source.
\<close>

text \<open>The norm of a measurement (lines 117 and 122) and its normalisation (118-120, 123-125).\<close>

definition vec_norm :: "vec3 \<Rightarrow> double" where
  "vec_norm v = (case v of (x, y, z) \<Rightarrow> dsqrt (x * x + y * y + z * z))"

definition normalise3 :: "vec3 \<Rightarrow> vec3" where
  "normalise3 v =
     (case v of (x, y, z) \<Rightarrow>
        let norm = vec_norm (x, y, z)
        in (x / norm, y / norm, z / norm))"

text \<open>
  The objective function, its Jacobian and the gradient (lines 93-112 and 126-155), from
  the members \<open>SEq\<close>, \<open>b_x\<close>, \<open>b_z\<close> and the normalised measurements.
\<close>

definition gradient :: "MARGfilter \<Rightarrow> vec3 \<Rightarrow> vec3 \<Rightarrow> quat" where
  "gradient st a m =
     (case a of (a_x, a_y, a_z) \<Rightarrow> case m of (m_x, m_y, m_z) \<Rightarrow>
      let twoSEq_1 = Fin 2 * SEq_1 st;
          twoSEq_2 = Fin 2 * SEq_2 st;
          twoSEq_3 = Fin 2 * SEq_3 st;
          twoSEq_4 = Fin 2 * SEq_4 st;
          twob_x = Fin 2 * b_x st;
          twob_z = Fin 2 * b_z st;
          twob_xSEq_1 = Fin 2 * b_x st * SEq_1 st;
          twob_xSEq_2 = Fin 2 * b_x st * SEq_2 st;
          twob_xSEq_3 = Fin 2 * b_x st * SEq_3 st;
          twob_xSEq_4 = Fin 2 * b_x st * SEq_4 st;
          twob_zSEq_1 = Fin 2 * b_z st * SEq_1 st;
          twob_zSEq_2 = Fin 2 * b_z st * SEq_2 st;
          twob_zSEq_3 = Fin 2 * b_z st * SEq_3 st;
          twob_zSEq_4 = Fin 2 * b_z st * SEq_4 st;
          SEq_1SEq_3 = SEq_1 st * SEq_3 st;
          SEq_2SEq_4 = SEq_2 st * SEq_4 st;
          f_1 = twoSEq_2 * SEq_4 st - twoSEq_1 * SEq_3 st - a_x;
          f_2 = twoSEq_1 * SEq_2 st + twoSEq_3 * SEq_4 st - a_y;
          f_3 = Fin 1 - twoSEq_2 * SEq_2 st - twoSEq_3 * SEq_3 st - a_z;
          f_4 = twob_x * (Fin 0.5 - SEq_3 st * SEq_3 st - SEq_4 st * SEq_4 st)
                + twob_z * (SEq_2SEq_4 - SEq_1SEq_3) - m_x;
          f_5 = twob_x * (SEq_2 st * SEq_3 st - SEq_1 st * SEq_4 st)
                + twob_z * (SEq_1 st * SEq_2 st + SEq_3 st * SEq_4 st) - m_y;
          f_6 = twob_x * (SEq_1SEq_3 + SEq_2SEq_4)
                + twob_z * (Fin 0.5 - SEq_2 st * SEq_2 st - SEq_3 st * SEq_3 st) - m_z;
          J_11or24 = twoSEq_3;
          J_12or23 = Fin 2 * SEq_4 st;
          J_13or22 = twoSEq_1;
          J_14or21 = twoSEq_2;
          J_32 = Fin 2 * J_14or21;
          J_33 = Fin 2 * J_11or24;
          J_41 = twob_zSEq_3;
          J_42 = twob_zSEq_4;
          J_43 = Fin 2 * twob_xSEq_3 + twob_zSEq_1;
          J_44 = Fin 2 * twob_xSEq_4 - twob_zSEq_2;
          J_51 = twob_xSEq_4 - twob_zSEq_2;
          J_52 = twob_xSEq_3 + twob_zSEq_1;
          J_53 = twob_xSEq_2 + twob_zSEq_4;
          J_54 = twob_xSEq_1 - twob_zSEq_3;
          J_61 = twob_xSEq_3;
          J_62 = twob_xSEq_4 - Fin 2 * twob_zSEq_2;
          J_63 = twob_xSEq_1 - Fin 2 * twob_zSEq_3;
          J_64 = twob_xSEq_2
      in (J_14or21 * f_2 - J_11or24 * f_1 - J_41 * f_4 - J_51 * f_5 + J_61 * f_6,
          J_12or23 * f_1 + J_13or22 * f_2 - J_32 * f_3 + J_42 * f_4 + J_52 * f_5 + J_62 * f_6,
          J_12or23 * f_2 - J_33 * f_3 - J_13or22 * f_1 - J_43 * f_4 + J_53 * f_5 + J_63 * f_6,
          J_14or21 * f_1 + J_11or24 * f_2 - J_44 * f_4 - J_54 * f_5 + J_64 * f_6))"

text \<open>
  The norm of four components (lines 157 and 184) and the division of each by it
  (158-161 for the gradient, 185-188 for the quaternion).
\<close>

definition quat_norm :: "quat \<Rightarrow> double" where
  "quat_norm q =
     (case q of (q1, q2, q3, q4) \<Rightarrow> dsqrt (q1 * q1 + q2 * q2 + q3 * q3 + q4 * q4))"

definition normalise4 :: "quat \<Rightarrow> quat" where
  "normalise4 q =
     (case q of (q1, q2, q3, q4) \<Rightarrow>
        let norm = quat_norm (q1, q2, q3, q4)
        in (q1 / norm, q2 / norm, q3 / norm, q4 / norm))"

text \<open>Lines 116-161: the normalised gradient from the members and the raw measurements.\<close>

definition SEqHatDot :: "MARGfilter \<Rightarrow> vec3 \<Rightarrow> vec3 \<Rightarrow> quat" where
  "SEqHatDot st a m = normalise4 (gradient st (normalise3 a) (normalise3 m))"

text \<open>The angular estimated direction of the gyroscope error (lines 162-165).\<close>

definition w_err :: "MARGfilter \<Rightarrow> quat \<Rightarrow> vec3" where
  "w_err st g =
     (case g of (SEqHatDot_1, SEqHatDot_2, SEqHatDot_3, SEqHatDot_4) \<Rightarrow>
      let twoSEq_1 = Fin 2 * SEq_1 st;
          twoSEq_2 = Fin 2 * SEq_2 st;
          twoSEq_3 = Fin 2 * SEq_3 st;
          twoSEq_4 = Fin 2 * SEq_4 st
      in (twoSEq_1 * SEqHatDot_2 - twoSEq_2 * SEqHatDot_1
            - twoSEq_3 * SEqHatDot_4 + twoSEq_4 * SEqHatDot_3,
          twoSEq_1 * SEqHatDot_3 + twoSEq_2 * SEqHatDot_4
            - twoSEq_3 * SEqHatDot_1 - twoSEq_4 * SEqHatDot_2,
          twoSEq_1 * SEqHatDot_4 - twoSEq_2 * SEqHatDot_3
            + twoSEq_3 * SEqHatDot_2 - twoSEq_4 * SEqHatDot_1))"

text \<open>The new gyroscope biases (lines 167-169).\<close>

definition gyro_bias :: "MARGfilter \<Rightarrow> vec3 \<Rightarrow> vec3" where
  "gyro_bias st e =
     (case e of (w_err_x, w_err_y, w_err_z) \<Rightarrow>
        (w_bx st + w_err_x * deltat st * zeta st,
         w_by st + w_err_y * deltat st * zeta st,
         w_bz st + w_err_z * deltat st * zeta st))"

text \<open>
  The quaternion rate measured by the gyroscopes (lines 174-177), from the rates it is
  given.
\<close>

definition SEqDot_omega :: "MARGfilter \<Rightarrow> vec3 \<Rightarrow> quat" where
  "SEqDot_omega st w =
     (case w of (w_x, w_y, w_z) \<Rightarrow>
      let halfSEq_1 = Fin 0.5 * SEq_1 st;
          halfSEq_2 = Fin 0.5 * SEq_2 st;
          halfSEq_3 = Fin 0.5 * SEq_3 st;
          halfSEq_4 = Fin 0.5 * SEq_4 st
      in (- halfSEq_2 * w_x - halfSEq_3 * w_y - halfSEq_4 * w_z,
          halfSEq_1 * w_x + halfSEq_3 * w_z - halfSEq_4 * w_y,
          halfSEq_1 * w_y - halfSEq_2 * w_z + halfSEq_4 * w_x,
          halfSEq_1 * w_z + halfSEq_2 * w_y - halfSEq_3 * w_x))"

text \<open>
  Lines 170-182: the biases \<open>wb\<close> are taken off the raw rates, the quaternion rate is
  computed from the result, and the estimated rate is integrated into \<open>SEq\<close>.
\<close>

definition integrate :: "MARGfilter \<Rightarrow> vec3 \<Rightarrow> vec3 \<Rightarrow> quat \<Rightarrow> quat" where
  "integrate st w wb g =
     (case w of (w_x, w_y, w_z) \<Rightarrow> case wb of (wbx, wby, wbz) \<Rightarrow>
      case g of (SEqHatDot_1, SEqHatDot_2, SEqHatDot_3, SEqHatDot_4) \<Rightarrow>
      case SEqDot_omega st (w_x - wbx, w_y - wby, w_z - wbz) of
        (SEqDot_omega_1, SEqDot_omega_2, SEqDot_omega_3, SEqDot_omega_4) \<Rightarrow>
          (SEq_1 st + (SEqDot_omega_1 - (beta st * SEqHatDot_1)) * deltat st,
           SEq_2 st + (SEqDot_omega_2 - (beta st * SEqHatDot_2)) * deltat st,
           SEq_3 st + (SEqDot_omega_3 - (beta st * SEqHatDot_3)) * deltat st,
           SEq_4 st + (SEqDot_omega_4 - (beta st * SEqHatDot_4)) * deltat st))"

text \<open>
  Lines 162-182 together: the quaternion before its normalisation, from the members and
  the raw rates and measurements.
\<close>

definition SEq_integrated :: "MARGfilter \<Rightarrow> vec3 \<Rightarrow> vec3 \<Rightarrow> vec3 \<Rightarrow> quat" where
  "SEq_integrated st w a m =
     integrate st w (gyro_bias st (w_err st (SEqHatDot st a m))) (SEqHatDot st a m)"

text \<open>
  The flux in the earth frame and the new \<open>b_x\<close>, \<open>b_z\<close> (lines 113-115 and 189-201),
  from the normalised quaternion and the raw magnetometer measurement.
\<close>

definition flux :: "quat \<Rightarrow> vec3 \<Rightarrow> double \<times> double" where
  "flux q m =
     (case q of (q1, q2, q3, q4) \<Rightarrow> case m of (m_x, m_y, m_z) \<Rightarrow>
      let twom_x = Fin 2 * m_x;
          twom_y = Fin 2 * m_y;
          twom_z = Fin 2 * m_z;
          SEq_1SEq_2 = q1 * q2;
          SEq_1SEq_3 = q1 * q3;
          SEq_1SEq_4 = q1 * q4;
          SEq_3SEq_4 = q3 * q4;
          SEq_2SEq_3 = q2 * q3;
          SEq_2SEq_4 = q2 * q4;
          h_x = twom_x * (Fin 0.5 - q3 * q3 - q4 * q4) + twom_y * (SEq_2SEq_3 - SEq_1SEq_4)
                + twom_z * (SEq_2SEq_4 + SEq_1SEq_3);
          h_y = twom_x * (SEq_2SEq_3 + SEq_1SEq_4) + twom_y * (Fin 0.5 - q2 * q2 - q4 * q4)
                + twom_z * (SEq_3SEq_4 - SEq_1SEq_2);
          h_z = twom_x * (SEq_2SEq_4 - SEq_1SEq_3) + twom_y * (SEq_3SEq_4 + SEq_1SEq_2)
                + twom_z * (Fin 0.5 - q2 * q2 - q3 * q3)
      in (dsqrt ((h_x * h_x) + (h_y * h_y)), h_z))"

text \<open>Lines 203-210: the first update stores the quaternion as the auxiliary frame.\<close>

definition store_auxiliary :: "MARGfilter \<Rightarrow> MARGfilter" where
  "store_auxiliary st =
     (if firstUpdate st = 0
      then st\<lparr>AEq_1 := SEq_1 st, AEq_2 := SEq_2 st, AEq_3 := SEq_3 st, AEq_4 := SEq_4 st,
              firstUpdate := 1\<rparr>
      else st)"

definition updateFilter ::
  "MARGfilter \<Rightarrow> double \<Rightarrow> double \<Rightarrow> double \<Rightarrow> double \<Rightarrow> double \<Rightarrow> double
     \<Rightarrow> double \<Rightarrow> double \<Rightarrow> double \<Rightarrow> MARGfilter" where
  "updateFilter st w_x w_y w_z a_x a_y a_z m_x m_y m_z =
     (case gyro_bias st (w_err st (SEqHatDot st (a_x, a_y, a_z) (m_x, m_y, m_z))) of
        (wbx, wby, wbz) \<Rightarrow>
      case normalise4 (SEq_integrated st (w_x, w_y, w_z) (a_x, a_y, a_z) (m_x, m_y, m_z)) of
        (q1, q2, q3, q4) \<Rightarrow>
      case flux (q1, q2, q3, q4) (m_x, m_y, m_z) of
        (bx, bz) \<Rightarrow>
      store_auxiliary
        (st\<lparr>w_bx := wbx, w_by := wby, w_bz := wbz,
            SEq_1 := q1, SEq_2 := q2, SEq_3 := q3, SEq_4 := q4,
            b_x := bx, b_z := bz\<rparr>))"

text \<open>The members \<open>SEq\<close> and \<open>AEq\<close> as quaternions.\<close>

definition SEq :: "MARGfilter \<Rightarrow> quat" where
  "SEq st = (SEq_1 st, SEq_2 st, SEq_3 st, SEq_4 st)"

definition AEq :: "MARGfilter \<Rightarrow> quat" where
  "AEq st = (AEq_1 st, AEq_2 st, AEq_3 st, AEq_4 st)"

text \<open>
  The filter object of the example program (line 928 of the main file): a global, so its
  storage is zero before the constructor runs.
\<close>

definition zero_storage :: MARGfilter where
  "zero_storage =
     \<lparr>firstUpdate = 0,
      AEq_1 = Fin 0, AEq_2 = Fin 0, AEq_3 = Fin 0, AEq_4 = Fin 0,
      SEq_1 = Fin 0, SEq_2 = Fin 0, SEq_3 = Fin 0, SEq_4 = Fin 0,
      deltat = Fin 0, gyroMeasError = Fin 0, gyroMeasDrift = Fin 0,
      b_x = Fin 0, b_z = Fin 0,
      w_bx = Fin 0, w_by = Fin 0, w_bz = Fin 0,
      beta = Fin 0, zeta = Fin 0,
      phi = Fin 0, theta = Fin 0, psi = Fin 0\<rparr>"

definition margFilter :: MARGfilter where
  "margFilter = MARGfilter_ctor zero_storage (Fin 0.1) (Fin 0.3) (Fin 0.0)"

text \<open>The example's filter object once it has turned to the quaternion \<open>(0.6, 0.8, 0, 0)\<close>.\<close>

definition rolled :: MARGfilter where
  "rolled = margFilter\<lparr>SEq_1 := Fin 0.6, SEq_2 := Fin 0.8\<rparr>"

text \<open>The same object once it has turned to the unit quaternion \<open>(-0.5, -0.5, -0.7, -0.1)\<close>.\<close>

definition pitched :: MARGfilter where
  "pitched = margFilter\<lparr>SEq_1 := Fin (- 0.5), SEq_2 := Fin (- 0.5), SEq_3 := Fin (- 0.7),
                          SEq_4 := Fin (- 0.1)\<rparr>"


subsection \<open>updateFilter in rounded arithmetic\<close>

text \<open>
  The embedding above computes in exact arithmetic, which decides the claims on the
  structure of the update and on its special values. What the update leaves as the norm
  of \<open>SEq\<close> depends on rounding, underflow and overflow; for that the same blocks are
  embedded again over \<open>binary64\<close>, each with the text of the block above. A member
  is read as the double it holds (\<open>SEq_1\<close> below is the member of \<open>st\<close>).
\<close>

type_synonym vec3_64 = "binary64 \<times> binary64 \<times> binary64"
type_synonym quat64 = "binary64 \<times> binary64 \<times> binary64 \<times> binary64"

text \<open>Lines 116-125.\<close>

definition vec_norm64 :: "vec3_64 \<Rightarrow> binary64" where
  "vec_norm64 v = (case v of (x, y, z) \<Rightarrow> sqrt64 (x * x + y * y + z * z))"

definition normalise3_64 :: "vec3_64 \<Rightarrow> vec3_64" where
  "normalise3_64 v =
     (case v of (x, y, z) \<Rightarrow>
        let norm = vec_norm64 (x, y, z)
        in (x / norm, y / norm, z / norm))"

text \<open>Lines 93-112 and 126-155.\<close>

definition gradient64 :: "MARGfilter \<Rightarrow> vec3_64 \<Rightarrow> vec3_64 \<Rightarrow> quat64" where
  "gradient64 st a m =
     (let SEq_1 = B64 (SEq_1 st);
          SEq_2 = B64 (SEq_2 st);
          SEq_3 = B64 (SEq_3 st);
          SEq_4 = B64 (SEq_4 st);
          b_x = B64 (b_x st);
          b_z = B64 (b_z st)
      in
     (case a of (a_x, a_y, a_z) \<Rightarrow> case m of (m_x, m_y, m_z) \<Rightarrow>
      let twoSEq_1 = lit 2 * SEq_1;
          twoSEq_2 = lit 2 * SEq_2;
          twoSEq_3 = lit 2 * SEq_3;
          twoSEq_4 = lit 2 * SEq_4;
          twob_x = lit 2 * b_x;
          twob_z = lit 2 * b_z;
          twob_xSEq_1 = lit 2 * b_x * SEq_1;
          twob_xSEq_2 = lit 2 * b_x * SEq_2;
          twob_xSEq_3 = lit 2 * b_x * SEq_3;
          twob_xSEq_4 = lit 2 * b_x * SEq_4;
          twob_zSEq_1 = lit 2 * b_z * SEq_1;
          twob_zSEq_2 = lit 2 * b_z * SEq_2;
          twob_zSEq_3 = lit 2 * b_z * SEq_3;
          twob_zSEq_4 = lit 2 * b_z * SEq_4;
          SEq_1SEq_3 = SEq_1 * SEq_3;
          SEq_2SEq_4 = SEq_2 * SEq_4;
          f_1 = twoSEq_2 * SEq_4 - twoSEq_1 * SEq_3 - a_x;
          f_2 = twoSEq_1 * SEq_2 + twoSEq_3 * SEq_4 - a_y;
          f_3 = lit 1 - twoSEq_2 * SEq_2 - twoSEq_3 * SEq_3 - a_z;
          f_4 = twob_x * (lit 0.5 - SEq_3 * SEq_3 - SEq_4 * SEq_4)
                + twob_z * (SEq_2SEq_4 - SEq_1SEq_3) - m_x;
          f_5 = twob_x * (SEq_2 * SEq_3 - SEq_1 * SEq_4)
                + twob_z * (SEq_1 * SEq_2 + SEq_3 * SEq_4) - m_y;
          f_6 = twob_x * (SEq_1SEq_3 + SEq_2SEq_4)
                + twob_z * (lit 0.5 - SEq_2 * SEq_2 - SEq_3 * SEq_3) - m_z;
          J_11or24 = twoSEq_3;
          J_12or23 = lit 2 * SEq_4;
          J_13or22 = twoSEq_1;
          J_14or21 = twoSEq_2;
          J_32 = lit 2 * J_14or21;
          J_33 = lit 2 * J_11or24;
          J_41 = twob_zSEq_3;
          J_42 = twob_zSEq_4;
          J_43 = lit 2 * twob_xSEq_3 + twob_zSEq_1;
          J_44 = lit 2 * twob_xSEq_4 - twob_zSEq_2;
          J_51 = twob_xSEq_4 - twob_zSEq_2;
          J_52 = twob_xSEq_3 + twob_zSEq_1;
          J_53 = twob_xSEq_2 + twob_zSEq_4;
          J_54 = twob_xSEq_1 - twob_zSEq_3;
          J_61 = twob_xSEq_3;
          J_62 = twob_xSEq_4 - lit 2 * twob_zSEq_2;
          J_63 = twob_xSEq_1 - lit 2 * twob_zSEq_3;
          J_64 = twob_xSEq_2
      in (J_14or21 * f_2 - J_11or24 * f_1 - J_41 * f_4 - J_51 * f_5 + J_61 * f_6,
          J_12or23 * f_1 + J_13or22 * f_2 - J_32 * f_3 + J_42 * f_4 + J_52 * f_5 + J_62 * f_6,
          J_12or23 * f_2 - J_33 * f_3 - J_13or22 * f_1 - J_43 * f_4 + J_53 * f_5 + J_63 * f_6,
          J_14or21 * f_1 + J_11or24 * f_2 - J_44 * f_4 - J_54 * f_5 + J_64 * f_6)))"

text \<open>Lines 157-161 and 184-188.\<close>

definition quat_norm64 :: "quat64 \<Rightarrow> binary64" where
  "quat_norm64 q =
     (case q of (q1, q2, q3, q4) \<Rightarrow> sqrt64 (q1 * q1 + q2 * q2 + q3 * q3 + q4 * q4))"

definition normalise4_64 :: "quat64 \<Rightarrow> quat64" where
  "normalise4_64 q =
     (case q of (q1, q2, q3, q4) \<Rightarrow>
        let norm = quat_norm64 (q1, q2, q3, q4)
        in (q1 / norm, q2 / norm, q3 / norm, q4 / norm))"

text \<open>Lines 116-161 together.\<close>

definition SEqHatDot64 :: "MARGfilter \<Rightarrow> vec3_64 \<Rightarrow> vec3_64 \<Rightarrow> quat64" where
  "SEqHatDot64 st a m = normalise4_64 (gradient64 st (normalise3_64 a) (normalise3_64 m))"

text \<open>Lines 162-165.\<close>

definition w_err64 :: "MARGfilter \<Rightarrow> quat64 \<Rightarrow> vec3_64" where
  "w_err64 st g =
     (let SEq_1 = B64 (SEq_1 st);
          SEq_2 = B64 (SEq_2 st);
          SEq_3 = B64 (SEq_3 st);
          SEq_4 = B64 (SEq_4 st)
      in
     (case g of (SEqHatDot_1, SEqHatDot_2, SEqHatDot_3, SEqHatDot_4) \<Rightarrow>
      let twoSEq_1 = lit 2 * SEq_1;
          twoSEq_2 = lit 2 * SEq_2;
          twoSEq_3 = lit 2 * SEq_3;
          twoSEq_4 = lit 2 * SEq_4
      in (twoSEq_1 * SEqHatDot_2 - twoSEq_2 * SEqHatDot_1
            - twoSEq_3 * SEqHatDot_4 + twoSEq_4 * SEqHatDot_3,
          twoSEq_1 * SEqHatDot_3 + twoSEq_2 * SEqHatDot_4
            - twoSEq_3 * SEqHatDot_1 - twoSEq_4 * SEqHatDot_2,
          twoSEq_1 * SEqHatDot_4 - twoSEq_2 * SEqHatDot_3
            + twoSEq_3 * SEqHatDot_2 - twoSEq_4 * SEqHatDot_1)))"

text \<open>Lines 167-169.\<close>

definition gyro_bias64 :: "MARGfilter \<Rightarrow> vec3_64 \<Rightarrow> vec3_64" where
  "gyro_bias64 st e =
     (let w_bx = B64 (w_bx st);
          w_by = B64 (w_by st);
          w_bz = B64 (w_bz st);
          deltat = B64 (deltat st);
          zeta = B64 (zeta st)
      in
     (case e of (w_err_x, w_err_y, w_err_z) \<Rightarrow>
        (w_bx + w_err_x * deltat * zeta,
         w_by + w_err_y * deltat * zeta,
         w_bz + w_err_z * deltat * zeta)))"

text \<open>Lines 174-177.\<close>

definition SEqDot_omega64 :: "MARGfilter \<Rightarrow> vec3_64 \<Rightarrow> quat64" where
  "SEqDot_omega64 st w =
     (let SEq_1 = B64 (SEq_1 st);
          SEq_2 = B64 (SEq_2 st);
          SEq_3 = B64 (SEq_3 st);
          SEq_4 = B64 (SEq_4 st)
      in
     (case w of (w_x, w_y, w_z) \<Rightarrow>
      let halfSEq_1 = lit 0.5 * SEq_1;
          halfSEq_2 = lit 0.5 * SEq_2;
          halfSEq_3 = lit 0.5 * SEq_3;
          halfSEq_4 = lit 0.5 * SEq_4
      in (- halfSEq_2 * w_x - halfSEq_3 * w_y - halfSEq_4 * w_z,
          halfSEq_1 * w_x + halfSEq_3 * w_z - halfSEq_4 * w_y,
          halfSEq_1 * w_y - halfSEq_2 * w_z + halfSEq_4 * w_x,
          halfSEq_1 * w_z + halfSEq_2 * w_y - halfSEq_3 * w_x)))"

text \<open>Lines 170-182.\<close>

definition integrate64 :: "MARGfilter \<Rightarrow> vec3_64 \<Rightarrow> vec3_64 \<Rightarrow> quat64 \<Rightarrow> quat64" where
  "integrate64 st w wb g =
     (let SEq_1 = B64 (SEq_1 st);
          SEq_2 = B64 (SEq_2 st);
          SEq_3 = B64 (SEq_3 st);
          SEq_4 = B64 (SEq_4 st);
          deltat = B64 (deltat st);
          beta = B64 (beta st)
      in
     (case w of (w_x, w_y, w_z) \<Rightarrow> case wb of (wbx, wby, wbz) \<Rightarrow>
      case g of (SEqHatDot_1, SEqHatDot_2, SEqHatDot_3, SEqHatDot_4) \<Rightarrow>
      case SEqDot_omega64 st (w_x - wbx, w_y - wby, w_z - wbz) of
        (SEqDot_omega_1, SEqDot_omega_2, SEqDot_omega_3, SEqDot_omega_4) \<Rightarrow>
          (SEq_1 + (SEqDot_omega_1 - (beta * SEqHatDot_1)) * deltat,
           SEq_2 + (SEqDot_omega_2 - (beta * SEqHatDot_2)) * deltat,
           SEq_3 + (SEqDot_omega_3 - (beta * SEqHatDot_3)) * deltat,
           SEq_4 + (SEqDot_omega_4 - (beta * SEqHatDot_4)) * deltat)))"

text \<open>Lines 162-182 together: the quaternion before its normalisation.\<close>

definition SEq_integrated64 :: "MARGfilter \<Rightarrow> vec3_64 \<Rightarrow> vec3_64 \<Rightarrow> vec3_64 \<Rightarrow> quat64" where
  "SEq_integrated64 st w a m =
     integrate64 st w (gyro_bias64 st (w_err64 st (SEqHatDot64 st a m))) (SEqHatDot64 st a m)"

text \<open>Lines 113-115 and 189-201.\<close>

definition flux64 :: "quat64 \<Rightarrow> vec3_64 \<Rightarrow> binary64 \<times> binary64" where
  "flux64 q m =
     (case q of (q1, q2, q3, q4) \<Rightarrow> case m of (m_x, m_y, m_z) \<Rightarrow>
      let twom_x = lit 2 * m_x;
          twom_y = lit 2 * m_y;
          twom_z = lit 2 * m_z;
          SEq_1SEq_2 = q1 * q2;
          SEq_1SEq_3 = q1 * q3;
          SEq_1SEq_4 = q1 * q4;
          SEq_3SEq_4 = q3 * q4;
          SEq_2SEq_3 = q2 * q3;
          SEq_2SEq_4 = q2 * q4;
          h_x = twom_x * (lit 0.5 - q3 * q3 - q4 * q4) + twom_y * (SEq_2SEq_3 - SEq_1SEq_4)
                + twom_z * (SEq_2SEq_4 + SEq_1SEq_3);
          h_y = twom_x * (SEq_2SEq_3 + SEq_1SEq_4) + twom_y * (lit 0.5 - q2 * q2 - q4 * q4)
                + twom_z * (SEq_3SEq_4 - SEq_1SEq_2);
          h_z = twom_x * (SEq_2SEq_4 - SEq_1SEq_3) + twom_y * (SEq_3SEq_4 + SEq_1SEq_2)
                + twom_z * (lit 0.5 - q2 * q2 - q3 * q3)
      in (sqrt64 ((h_x * h_x) + (h_y * h_y)), h_z))"

text \<open>
  The whole update in rounded arithmetic: the arguments and the members enter as the
  doubles they are, and the results are stored as doubles. Lines 203-210 do no
  arithmetic and are shared with the embedding above.
\<close>

definition updateFilter64 ::
  "MARGfilter \<Rightarrow> double \<Rightarrow> double \<Rightarrow> double \<Rightarrow> double \<Rightarrow> double \<Rightarrow> double
     \<Rightarrow> double \<Rightarrow> double \<Rightarrow> double \<Rightarrow> MARGfilter" where
  "updateFilter64 st w_x w_y w_z a_x a_y a_z m_x m_y m_z =
     (let w = (B64 w_x, B64 w_y, B64 w_z);
          a = (B64 a_x, B64 a_y, B64 a_z);
          m = (B64 m_x, B64 m_y, B64 m_z)
      in
      case gyro_bias64 st (w_err64 st (SEqHatDot64 st a m)) of
        (wbx, wby, wbz) \<Rightarrow>
      case normalise4_64 (SEq_integrated64 st w a m) of
        (q1, q2, q3, q4) \<Rightarrow>
      case flux64 (q1, q2, q3, q4) m of
        (bx, bz) \<Rightarrow>
      store_auxiliary
        (st\<lparr>w_bx := the_double wbx, w_by := the_double wby, w_bz := the_double wbz,
            SEq_1 := the_double q1, SEq_2 := the_double q2,
            SEq_3 := the_double q3, SEq_4 := the_double q4,
            b_x := the_double bx, b_z := the_double bz\<rparr>))"

text \<open>
  The constructor in rounded arithmetic (lines 72-73), and the filter object of the
  example program with the literals of line 928 as doubles.
\<close>

definition MARGfilter_ctor64 :: "MARGfilter \<Rightarrow> double \<Rightarrow> double \<Rightarrow> double \<Rightarrow> MARGfilter" where
  "MARGfilter_ctor64 mem rate gyroscopeMeasurementError gyroscopeMeasurementDrift =
     mem\<lparr>firstUpdate := 0,
         AEq_1 := Fin 1, AEq_2 := Fin 0, AEq_3 := Fin 0, AEq_4 := Fin 0,
         SEq_1 := Fin 1, SEq_2 := Fin 0, SEq_3 := Fin 0, SEq_4 := Fin 0,
         deltat := rate,
         gyroMeasError := gyroscopeMeasurementError,
         gyroMeasDrift := gyroscopeMeasurementDrift,
         b_x := Fin 1, b_z := Fin 0,
         w_bx := Fin 0, w_by := Fin 0, w_bz := Fin 0,
         beta := the_double
           (sqrt64 (lit 3 / lit 4) * (lit pi * (B64 gyroscopeMeasurementError / lit 180))),
         zeta := the_double
           (sqrt64 (lit 3 / lit 4) * (lit pi * (B64 gyroscopeMeasurementDrift / lit 180)))\<rparr>"

definition margFilter64 :: MARGfilter where
  "margFilter64 = MARGfilter_ctor64 zero_storage (round64 0.1) (round64 0.3) (round64 0.0)"

text \<open>
  The example's filter object with the sampling period and both gains set to 1/2, values
  a double holds exactly.
\<close>

definition tuned64 :: MARGfilter where
  "tuned64 = margFilter64\<lparr>deltat := Fin (1 / 2), beta := Fin (1 / 2), zeta := Fin (1 / 2)\<rparr>"

text \<open>
  A valid measurement: three finite doubles that are not all zero, so that the vector
  has a nonzero Euclidean norm.
\<close>

definition valid_measurement :: "vec3 \<Rightarrow> bool" where
  "valid_measurement v =
     (case v of (x, y, z) \<Rightarrow>
        (case x of Fin a \<Rightarrow>
           (case y of Fin b \<Rightarrow>
              (case z of Fin c \<Rightarrow> 0 < a * a + b * b + c * c | _ \<Rightarrow> False)
            | _ \<Rightarrow> False)
         | _ \<Rightarrow> False))"

text \<open>
  The Euclidean norm of four doubles is 1 within a tolerance: all four are finite and
  the norm of the four real numbers differs from 1 by at most the tolerance.
\<close>

definition unit_within :: "real \<Rightarrow> quat \<Rightarrow> bool" where
  "unit_within tol q =
     (case q of (q1, q2, q3, q4) \<Rightarrow>
        (case q1 of Fin a \<Rightarrow>
           (case q2 of Fin b \<Rightarrow>
              (case q3 of Fin c \<Rightarrow>
                 (case q4 of Fin d \<Rightarrow> \<bar>sqrt (a * a + b * b + c * c + d * d) - 1\<bar> \<le> tol
                  | _ \<Rightarrow> False)
               | _ \<Rightarrow> False)
            | _ \<Rightarrow> False)
         | _ \<Rightarrow> False))"

text \<open>Finiteness of a quaternion and of the members the update reads.\<close>

definition fin4 :: "quat \<Rightarrow> bool" where
  "fin4 q = (case q of (q1, q2, q3, q4) \<Rightarrow> is_fin q1 \<and> is_fin q2 \<and> is_fin q3 \<and> is_fin q4)"

definition finite_members :: "MARGfilter \<Rightarrow> bool" where
  "finite_members st =
     (fin4 (SEq st) \<and> is_fin (b_x st) \<and> is_fin (b_z st)
      \<and> is_fin (w_bx st) \<and> is_fin (w_by st) \<and> is_fin (w_bz st)
      \<and> is_fin (deltat st) \<and> is_fin (beta st) \<and> is_fin (zeta st))"

text \<open>A run of calls of \<open>updateFilter\<close>, one per list element, in order.\<close>

type_synonym measurement = "vec3 \<times> vec3 \<times> vec3"

fun updates :: "MARGfilter \<Rightarrow> measurement list \<Rightarrow> MARGfilter" where
  "updates st [] = st"
| "updates st (((wx, wy, wz), (ax, ay, az), (mx, my, mz)) # ms) =
     updates (updateFilter st wx wy wz ax ay az mx my mz) ms"

section \<open>The sampling program (the example's main file)\<close>

text \<open>The macros of lines 899-914.\<close>

definition g0 :: double where
  "g0 = Fin 9.812865328"

definition SAMPLES :: int where
  "SAMPLES = 4"

definition CALIBRATION_SAMPLES :: nat where
  "CALIBRATION_SAMPLES = 128"

definition toRadians :: "double \<Rightarrow> double" where
  "toRadians x = x * Fin 0.01745329252"

definition GYROSCOPE_GAIN :: double where
  "GYROSCOPE_GAIN = Fin 1 / Fin 14.375"

definition ACCELEROMETER_GAIN :: double where
  "ACCELEROMETER_GAIN = Fin 0.004 * g0"

definition MAGNETOMETER_GAIN :: double where
  "MAGNETOMETER_GAIN = Fin 1.0"

text \<open>An integer converted to double, and the cast \<open>(int16_t)\<close> of an \<open>int\<close>.\<close>

definition to_double :: "int \<Rightarrow> double" where
  "to_double i = Fin (of_int i)"

definition int16_t :: "int \<Rightarrow> int" where
  "int16_t r = sint (word_of_int r :: 16 word)"

text \<open>
  The globals of lines 943-990: biases, accumulators, the latest averaged readings and
  the sample counters. What a sensor delivers when it is read is an argument of the
  function that reads it: the buffer \<open>readings\<close> after \<open>getOutput\<close> or \<open>readData\<close>, and
  the three values of \<open>getGyroX\<close>, \<open>getGyroY\<close>, \<open>getGyroZ\<close>.
\<close>

record Globals =
  w_xBias :: double
  w_yBias :: double
  w_zBias :: double
  a_xBias :: double
  a_yBias :: double
  a_zBias :: double
  m_xBias :: double
  m_yBias :: double
  m_zBias :: double
  a_xAccumulator :: double
  a_yAccumulator :: double
  a_zAccumulator :: double
  w_xAccumulator :: double
  w_yAccumulator :: double
  w_zAccumulator :: double
  m_xAccumulator :: double
  m_yAccumulator :: double
  m_zAccumulator :: double
  a_x :: double
  a_y :: double
  a_z :: double
  w_x :: double
  w_y :: double
  w_z :: double
  m_x :: double
  m_y :: double
  m_z :: double
  accelerometerSamples :: int
  gyroscopeSamples :: int
  magnetometerSamples :: int

type_synonym raw = "int \<times> int \<times> int"

text \<open>\<open>sampleAccelerometer\<close> (lines 1034-1061).\<close>

definition sampleAccelerometer :: "Globals \<Rightarrow> raw \<Rightarrow> Globals" where
  "sampleAccelerometer g readings =
     (case readings of (r0, r1, r2) \<Rightarrow>
      if accelerometerSamples g = SAMPLES
      then g\<lparr>a_x := ((a_xAccumulator g / to_double SAMPLES) - a_xBias g) * ACCELEROMETER_GAIN,
             a_y := ((a_yAccumulator g / to_double SAMPLES) - a_yBias g) * ACCELEROMETER_GAIN,
             a_z := ((a_zAccumulator g / to_double SAMPLES) - a_zBias g) * ACCELEROMETER_GAIN,
             a_xAccumulator := Fin 0,
             a_yAccumulator := Fin 0,
             a_zAccumulator := Fin 0,
             accelerometerSamples := 0\<rparr>
      else g\<lparr>a_xAccumulator := a_xAccumulator g + to_double (int16_t r0),
             a_yAccumulator := a_yAccumulator g + to_double (int16_t r1),
             a_zAccumulator := a_zAccumulator g + to_double (int16_t r2),
             accelerometerSamples := accelerometerSamples g + 1\<rparr>)"

text \<open>\<open>sampleGyroscope\<close> (lines 1139-1165).\<close>

definition sampleGyroscope :: "Globals \<Rightarrow> raw \<Rightarrow> Globals" where
  "sampleGyroscope g gyro =
     (case gyro of (gx, gy, gz) \<Rightarrow>
      if gyroscopeSamples g = SAMPLES
      then g\<lparr>w_x := toRadians (((w_xAccumulator g / to_double SAMPLES) - w_xBias g) * GYROSCOPE_GAIN),
             w_y := toRadians (((w_yAccumulator g / to_double SAMPLES) - w_yBias g) * GYROSCOPE_GAIN),
             w_z := toRadians (((w_zAccumulator g / to_double SAMPLES) - w_zBias g) * GYROSCOPE_GAIN),
             w_xAccumulator := Fin 0,
             w_yAccumulator := Fin 0,
             w_zAccumulator := Fin 0,
             gyroscopeSamples := 0\<rparr>
      else g\<lparr>w_xAccumulator := w_xAccumulator g + to_double gx,
             w_yAccumulator := w_yAccumulator g + to_double gy,
             w_zAccumulator := w_zAccumulator g + to_double gz,
             gyroscopeSamples := gyroscopeSamples g + 1\<rparr>)"

text \<open>\<open>sampleMagnetometer\<close> (lines 1205-1229).\<close>

definition sampleMagnetometer :: "Globals \<Rightarrow> raw \<Rightarrow> Globals" where
  "sampleMagnetometer g readings =
     (case readings of (r0, r1, r2) \<Rightarrow>
      if magnetometerSamples g = SAMPLES
      then g\<lparr>m_x := ((m_xAccumulator g / to_double SAMPLES) - m_xBias g) * MAGNETOMETER_GAIN,
             m_y := ((m_yAccumulator g / to_double SAMPLES) - m_yBias g) * MAGNETOMETER_GAIN,
             m_z := ((m_zAccumulator g / to_double SAMPLES) - m_zBias g) * MAGNETOMETER_GAIN,
             m_xAccumulator := Fin 0,
             m_yAccumulator := Fin 0,
             m_zAccumulator := Fin 0,
             magnetometerSamples := 0\<rparr>
      else g\<lparr>m_xAccumulator := m_xAccumulator g + to_double (int16_t r0),
             m_yAccumulator := m_yAccumulator g + to_double (int16_t r1),
             m_zAccumulator := m_zAccumulator g + to_double (int16_t r2),
             magnetometerSamples := magnetometerSamples g + 1\<rparr>)"

text \<open>
  The calibration loops. \<open>sensor i\<close> is what the sensor delivers in iteration \<open>i\<close>; the
  loop \<open>for (int i = 0; i < n; i++)\<close> runs its body for \<open>i = 0, ..., n - 1\<close>.
\<close>

definition accumulateAccelerometer :: "(nat \<Rightarrow> raw) \<Rightarrow> nat \<Rightarrow> Globals \<Rightarrow> Globals" where
  "accumulateAccelerometer sensor i g =
     (case sensor i of (r0, r1, r2) \<Rightarrow>
        g\<lparr>a_xAccumulator := a_xAccumulator g + to_double (int16_t r0),
          a_yAccumulator := a_yAccumulator g + to_double (int16_t r1),
          a_zAccumulator := a_zAccumulator g + to_double (int16_t r2)\<rparr>)"

definition accumulateGyroscope :: "(nat \<Rightarrow> raw) \<Rightarrow> nat \<Rightarrow> Globals \<Rightarrow> Globals" where
  "accumulateGyroscope sensor i g =
     (case sensor i of (gx, gy, gz) \<Rightarrow>
        g\<lparr>w_xAccumulator := w_xAccumulator g + to_double gx,
          w_yAccumulator := w_yAccumulator g + to_double gy,
          w_zAccumulator := w_zAccumulator g + to_double gz\<rparr>)"

definition accumulateMagnetometer :: "(nat \<Rightarrow> raw) \<Rightarrow> nat \<Rightarrow> Globals \<Rightarrow> Globals" where
  "accumulateMagnetometer sensor i g =
     (case sensor i of (r0, r1, r2) \<Rightarrow>
        g\<lparr>m_xAccumulator := m_xAccumulator g + to_double (int16_t r0),
          m_yAccumulator := m_yAccumulator g + to_double (int16_t r1),
          m_zAccumulator := m_zAccumulator g + to_double (int16_t r2)\<rparr>)"

text \<open>\<open>calibrateAccelerometer\<close> (lines 1063-1096).\<close>

definition calibrateAccelerometer :: "Globals \<Rightarrow> (nat \<Rightarrow> raw) \<Rightarrow> Globals" where
  "calibrateAccelerometer g sensor =
     (let g1 = g\<lparr>a_xAccumulator := Fin 0, a_yAccumulator := Fin 0, a_zAccumulator := Fin 0\<rparr>;
          g2 = fold (accumulateAccelerometer sensor) [0..<CALIBRATION_SAMPLES] g1;
          g3 = g2\<lparr>a_xAccumulator := a_xAccumulator g2 / to_double (int CALIBRATION_SAMPLES),
                  a_yAccumulator := a_yAccumulator g2 / to_double (int CALIBRATION_SAMPLES),
                  a_zAccumulator := a_zAccumulator g2 / to_double (int CALIBRATION_SAMPLES)\<rparr>;
          g4 = g3\<lparr>a_xBias := a_xAccumulator g3,
                  a_yBias := a_yAccumulator g3,
                  a_zBias := a_zAccumulator g3 - to_double 250\<rparr>
      in g4\<lparr>a_xAccumulator := Fin 0, a_yAccumulator := Fin 0, a_zAccumulator := Fin 0\<rparr>)"

text \<open>\<open>calibrateGyroscope\<close> (lines 1107-1137).\<close>

definition calibrateGyroscope :: "Globals \<Rightarrow> (nat \<Rightarrow> raw) \<Rightarrow> Globals" where
  "calibrateGyroscope g sensor =
     (let g1 = g\<lparr>w_xAccumulator := Fin 0, w_yAccumulator := Fin 0, w_zAccumulator := Fin 0\<rparr>;
          g2 = fold (accumulateGyroscope sensor) [0..<CALIBRATION_SAMPLES] g1;
          g3 = g2\<lparr>w_xAccumulator := w_xAccumulator g2 / to_double (int CALIBRATION_SAMPLES),
                  w_yAccumulator := w_yAccumulator g2 / to_double (int CALIBRATION_SAMPLES),
                  w_zAccumulator := w_zAccumulator g2 / to_double (int CALIBRATION_SAMPLES)\<rparr>;
          g4 = g3\<lparr>w_xBias := w_xAccumulator g3,
                  w_yBias := w_yAccumulator g3,
                  w_zBias := w_zAccumulator g3\<rparr>
      in g4\<lparr>w_xAccumulator := Fin 0, w_yAccumulator := Fin 0, w_zAccumulator := Fin 0\<rparr>)"

text \<open>\<open>calibrateMagnetometer\<close> (lines 1174-1203): the loop runs 20 times.\<close>

definition calibrateMagnetometer :: "Globals \<Rightarrow> (nat \<Rightarrow> raw) \<Rightarrow> Globals" where
  "calibrateMagnetometer g sensor =
     (let g1 = g\<lparr>m_xAccumulator := Fin 0, m_yAccumulator := Fin 0, m_zAccumulator := Fin 0\<rparr>;
          g2 = fold (accumulateMagnetometer sensor) [0..<20] g1;
          g3 = g2\<lparr>m_xAccumulator := m_xAccumulator g2 / to_double (int CALIBRATION_SAMPLES),
                  m_yAccumulator := m_yAccumulator g2 / to_double (int CALIBRATION_SAMPLES),
                  m_zAccumulator := m_zAccumulator g2 / to_double (int CALIBRATION_SAMPLES)\<rparr>;
          g4 = g3\<lparr>m_xBias := m_xAccumulator g3,
                  m_yBias := m_yAccumulator g3,
                  m_zBias := m_zAccumulator g3\<rparr>
      in g4\<lparr>m_xAccumulator := Fin 0, m_yAccumulator := Fin 0, m_zAccumulator := Fin 0\<rparr>)"

text \<open>
  The arithmetic mean of the first \<open>n\<close> values a sensor axis delivers, as the claims on
  calibration name it.
\<close>

definition mean :: "(nat \<Rightarrow> int) \<Rightarrow> nat \<Rightarrow> real" where
  "mean f n = (\<Sum>i<n. real_of_int (f i)) / real n"


text \<open>
  The globals when the program starts: objects of static storage are zero before
  \<open>main\<close> runs.
\<close>

definition startup :: Globals where
  "startup =
     \<lparr>w_xBias = Fin 0, w_yBias = Fin 0, w_zBias = Fin 0,
      a_xBias = Fin 0, a_yBias = Fin 0, a_zBias = Fin 0,
      m_xBias = Fin 0, m_yBias = Fin 0, m_zBias = Fin 0,
      a_xAccumulator = Fin 0, a_yAccumulator = Fin 0, a_zAccumulator = Fin 0,
      w_xAccumulator = Fin 0, w_yAccumulator = Fin 0, w_zAccumulator = Fin 0,
      m_xAccumulator = Fin 0, m_yAccumulator = Fin 0, m_zAccumulator = Fin 0,
      a_x = Fin 0, a_y = Fin 0, a_z = Fin 0,
      w_x = Fin 0, w_y = Fin 0, w_z = Fin 0,
      m_x = Fin 0, m_y = Fin 0, m_z = Fin 0,
      accelerometerSamples = 0, gyroscopeSamples = 0, magnetometerSamples = 0\<rparr>"

text \<open>
  A run of calls of one sampler by its ticker, one call per list element; the element
  is what the sensor would deliver in that call.
\<close>

definition ticks :: "(Globals \<Rightarrow> raw \<Rightarrow> Globals) \<Rightarrow> Globals \<Rightarrow> raw list \<Rightarrow> Globals" where
  "ticks sampler g rs = fold (\<lambda>r g'. sampler g' r) rs g"

text \<open>The latest averaged reading and the running sums of each sensor, as triples.\<close>

definition accel_slot :: "Globals \<Rightarrow> vec3" where
  "accel_slot g = (a_x g, a_y g, a_z g)"

definition accel_sums :: "Globals \<Rightarrow> vec3" where
  "accel_sums g = (a_xAccumulator g, a_yAccumulator g, a_zAccumulator g)"

definition gyro_slot :: "Globals \<Rightarrow> vec3" where
  "gyro_slot g = (w_x g, w_y g, w_z g)"

definition gyro_sums :: "Globals \<Rightarrow> vec3" where
  "gyro_sums g = (w_xAccumulator g, w_yAccumulator g, w_zAccumulator g)"

definition mag_slot :: "Globals \<Rightarrow> vec3" where
  "mag_slot g = (m_x g, m_y g, m_z g)"

definition mag_sums :: "Globals \<Rightarrow> vec3" where
  "mag_sums g = (m_xAccumulator g, m_yAccumulator g, m_zAccumulator g)"

section \<open>Reference definitions\<close>

text \<open>
  The quaternion conjugate and the Hamilton product, and the pitch of the standard
  conversion of a quaternion to Euler angles in the filter this one is adapted from:
  the arcsine of an entry of the rotation matrix, \<open>- asin (2 q2 q4 + 2 q1 q3)\<close>.
\<close>

definition qconj :: "quat \<Rightarrow> quat" where
  "qconj q = (case q of (q1, q2, q3, q4) \<Rightarrow> (q1, - q2, - q3, - q4))"

definition qmult :: "quat \<Rightarrow> quat \<Rightarrow> quat" where
  "qmult p q =
     (case p of (p1, p2, p3, p4) \<Rightarrow> case q of (q1, q2, q3, q4) \<Rightarrow>
        (p1 * q1 - p2 * q2 - p3 * q3 - p4 * q4,
         p1 * q2 + p2 * q1 + p3 * q4 - p4 * q3,
         p1 * q3 - p2 * q4 + p3 * q1 + p4 * q2,
         p1 * q4 + p2 * q3 - p3 * q2 + p4 * q1))"

definition standard_pitch :: "quat \<Rightarrow> double" where
  "standard_pitch q =
     (case q of (q1, q2, q3, q4) \<Rightarrow> - dasin (Fin 2 * q2 * q4 + Fin 2 * q1 * q3))"


text \<open>
  The averaged reading as the claims on the accumulator name it: the sum of the four
  samples divided by 4, minus the bias, times the gain.
\<close>

definition spec_average :: "double \<Rightarrow> double \<Rightarrow> int list \<Rightarrow> double" where
  "spec_average bias gain xs = ((to_double (sum_list xs) / to_double 4) - bias) * gain"

section \<open>Arithmetic of doubles\<close>

lemma NaN_plus [simp]: "NaN + a = NaN" "a + NaN = NaN"
  by (cases a; simp)+

lemma NaN_minus [simp]: "NaN - a = NaN" "a - NaN = NaN"
  by (simp_all add: minus_double_def)

lemma NaN_times [simp]: "NaN * a = NaN" "a * NaN = NaN"
  by (cases a; simp)+

lemma NaN_divide [simp]: "NaN / a = NaN" "a / NaN = NaN"
  by (cases a; simp)+

lemma Fin_minus [simp]: "Fin x - Fin y = Fin (x - y)"
  by (simp add: minus_double_def)

lemma is_fin_uminus [simp]: "is_fin (- a) = is_fin a"
  by (cases a) simp_all

lemma is_fin_plus [simp]: "is_fin (a + b) = (is_fin a \<and> is_fin b)"
  by (cases a; cases b; simp)

lemma is_fin_minus [simp]: "is_fin (a - b) = (is_fin a \<and> is_fin b)"
  by (simp add: minus_double_def)

lemma is_fin_times [simp]: "is_fin (a * b) = (is_fin a \<and> is_fin b)"
  by (cases a; cases b; simp)

lemma is_fin_divide: "is_fin a \<Longrightarrow> is_fin b \<Longrightarrow> b \<noteq> Fin 0 \<Longrightarrow> is_fin (a / b)"
  by (cases a; cases b; simp)

lemma is_fin_Fin: "is_fin a \<Longrightarrow> \<exists>x. a = Fin x"
  by (cases a) simp_all

section \<open>Evaluation of the update\<close>

lemma quat_norm_Fin:
  "quat_norm (Fin a, Fin b, Fin c, Fin d) = Fin (sqrt (a * a + b * b + c * c + d * d))"
proof -
  have "\<not> a * a + b * b + c * c + d * d < 0"
    by (simp add: not_less)
  then show ?thesis by (simp add: quat_norm_def)
qed

lemma SEq_updateFilter:
  "SEq (updateFilter st wx wy wz ax ay az mx my mz)
     = normalise4 (SEq_integrated st (wx, wy, wz) (ax, ay, az) (mx, my, mz))"
  by (simp add: updateFilter_def SEq_def store_auxiliary_def split: prod.splits)

text \<open>The definitions to unfold when the update is evaluated at a concrete state and input.\<close>

lemmas filter_defs =
  updateFilter_def SEq_integrated_def SEqHatDot_def normalise3_def vec_norm_def gradient_def
  normalise4_def quat_norm_def w_err_def gyro_bias_def integrate_def SEqDot_omega_def flux_def
  store_auxiliary_def SEq_def Let_def

lemmas margFilter_defs = margFilter_def MARGfilter_ctor_def zero_storage_def PI_def

section \<open>Measurements of zero norm\<close>

lemma vec_norm_zero:
  assumes "vec_norm (x, y, z) = Fin 0"
  shows "x = Fin 0 \<and> y = Fin 0 \<and> z = Fin 0"
proof -
  have s: "x * x + y * y + z * z = Fin 0"
    using assms by (cases "x * x + y * y + z * z") (simp_all add: vec_norm_def split: if_splits)
  then have "is_fin (x * x + y * y + z * z)" by simp
  then obtain a b c where v: "x = Fin a" "y = Fin b" "z = Fin c"
    by (auto dest!: is_fin_Fin)
  from s have "a * a + (b * b + c * c) = 0" by (simp add: v)
  then have "a * a = 0 \<and> b * b + c * c = 0"
    by (subst (asm) add_nonneg_eq_0_iff) simp_all
  then show ?thesis by (simp add: v)
qed

lemma normalise3_zero: "normalise3 (Fin 0, Fin 0, Fin 0) = (NaN, NaN, NaN)"
  by (simp add: normalise3_def vec_norm_def)

lemma gradient_NaN_accel: "gradient st (NaN, NaN, NaN) m = (NaN, NaN, NaN, NaN)"
  by (cases m) (simp add: gradient_def Let_def)

lemma gradient_NaN_mag: "gradient st a (NaN, NaN, NaN) = (NaN, NaN, NaN, NaN)"
  by (cases a) (simp add: gradient_def Let_def)

lemma SEqHatDot_zero_norm:
  assumes "vec_norm (ax, ay, az) = Fin 0 \<or> vec_norm (mx, my, mz) = Fin 0"
  shows "SEqHatDot st (ax, ay, az) (mx, my, mz) = (NaN, NaN, NaN, NaN)"
proof -
  have "gradient st (normalise3 (ax, ay, az)) (normalise3 (mx, my, mz)) = (NaN, NaN, NaN, NaN)"
    using assms
    by (auto dest!: vec_norm_zero simp: normalise3_zero gradient_NaN_accel gradient_NaN_mag)
  then show ?thesis
    by (simp add: SEqHatDot_def normalise4_def quat_norm_def)
qed

lemma NaN_propagates:
  assumes "SEqHatDot st (ax, ay, az) (mx, my, mz) = (NaN, NaN, NaN, NaN)"
  shows "SEq (updateFilter st wx wy wz ax ay az mx my mz) = (NaN, NaN, NaN, NaN)
     \<and> w_bx (updateFilter st wx wy wz ax ay az mx my mz) = NaN
     \<and> w_by (updateFilter st wx wy wz ax ay az mx my mz) = NaN
     \<and> w_bz (updateFilter st wx wy wz ax ay az mx my mz) = NaN
     \<and> b_x (updateFilter st wx wy wz ax ay az mx my mz) = NaN
     \<and> b_z (updateFilter st wx wy wz ax ay az mx my mz) = NaN"
  by (simp add: updateFilter_def SEq_integrated_def assms w_err_def gyro_bias_def integrate_def
      SEqDot_omega_def normalise4_def quat_norm_def flux_def store_auxiliary_def SEq_def Let_def)

text \<open>
  Claim C2, as amended. \<open>updateFilter\<close> has no guard: when the accelerometer or the
  magnetometer vector has zero norm, the normalisation divides zero by zero, nothing is
  skipped, and after the call the four components of \<open>SEq\<close>, the gyroscope biases and
  \<open>b_x\<close>, \<open>b_z\<close> are all NaN, whatever the state and the other arguments were.
\<close>

theorem updateFilter_zero_norm_NaN:
  assumes "vec_norm (ax, ay, az) = Fin 0 \<or> vec_norm (mx, my, mz) = Fin 0"
  shows "SEq (updateFilter st wx wy wz ax ay az mx my mz) = (NaN, NaN, NaN, NaN)
     \<and> w_bx (updateFilter st wx wy wz ax ay az mx my mz) = NaN
     \<and> w_by (updateFilter st wx wy wz ax ay az mx my mz) = NaN
     \<and> w_bz (updateFilter st wx wy wz ax ay az mx my mz) = NaN
     \<and> b_x (updateFilter st wx wy wz ax ay az mx my mz) = NaN
     \<and> b_z (updateFilter st wx wy wz ax ay az mx my mz) = NaN"
  by (rule NaN_propagates) (rule SEqHatDot_zero_norm [OF assms])

theorem updateFilter_zero_norm_NaN_witness:
  "(vec_norm (Fin 0, Fin 0, Fin 0) = Fin 0 \<or> vec_norm (Fin 1, Fin 0, Fin 0) = Fin 0)
   \<and> SEq (updateFilter margFilter (Fin 0) (Fin 0) (Fin 0) (Fin 0) (Fin 0) (Fin 0) (Fin 1) (Fin 0) (Fin 0))
       = (NaN, NaN, NaN, NaN)"
proof -
  have h: "vec_norm (Fin 0, Fin 0, Fin 0) = Fin 0 \<or> vec_norm (Fin 1, Fin 0, Fin 0) = Fin 0"
    by (simp add: vec_norm_def)
  from updateFilter_zero_norm_NaN [OF h, of margFilter "Fin 0" "Fin 0" "Fin 0"] h
  show ?thesis by blast
qed

text \<open>
  The claim as stated fails: a zero accelerometer vector on the example's filter object
  leaves \<open>SEq\<close> neither finite nor of norm 1.
\<close>

theorem updateFilter_zero_accel_counterexample:
  "vec_norm (Fin 0, Fin 0, Fin 0) = Fin 0
   \<and> finite_members margFilter \<and> quat_norm (SEq margFilter) = Fin 1
   \<and> \<not> fin4 (SEq (updateFilter margFilter (Fin 0) (Fin 0) (Fin 0) (Fin 0) (Fin 0) (Fin 0) (Fin 1) (Fin 0) (Fin 0)))
   \<and> quat_norm (SEq (updateFilter margFilter (Fin 0) (Fin 0) (Fin 0) (Fin 0) (Fin 0) (Fin 0) (Fin 1) (Fin 0) (Fin 0)))
       \<noteq> Fin 1"
  by (simp add: filter_defs margFilter_defs finite_members_def fin4_def)


section \<open>Gyroscope bias compensation\<close>

text \<open>
  Claim C3. In every call, each gyroscope bias grows by the angular error estimate times
  \<open>deltat\<close> times \<open>zeta\<close>, and the quaternion rate that is integrated into \<open>SEq\<close> is
  computed from the raw rates minus the biases as they are after that call.
\<close>

theorem gyro_bias_compensation:
  "(case w_err st (SEqHatDot st (ax, ay, az) (mx, my, mz)) of (w_err_x, w_err_y, w_err_z) \<Rightarrow>
      w_bx (updateFilter st wx wy wz ax ay az mx my mz) = w_bx st + w_err_x * deltat st * zeta st
    \<and> w_by (updateFilter st wx wy wz ax ay az mx my mz) = w_by st + w_err_y * deltat st * zeta st
    \<and> w_bz (updateFilter st wx wy wz ax ay az mx my mz) = w_bz st + w_err_z * deltat st * zeta st)
   \<and> (case SEqDot_omega st
              (wx - w_bx (updateFilter st wx wy wz ax ay az mx my mz),
               wy - w_by (updateFilter st wx wy wz ax ay az mx my mz),
               wz - w_bz (updateFilter st wx wy wz ax ay az mx my mz)) of
         (SEqDot_omega_1, SEqDot_omega_2, SEqDot_omega_3, SEqDot_omega_4) \<Rightarrow>
       case SEqHatDot st (ax, ay, az) (mx, my, mz) of
         (SEqHatDot_1, SEqHatDot_2, SEqHatDot_3, SEqHatDot_4) \<Rightarrow>
       SEq (updateFilter st wx wy wz ax ay az mx my mz) =
         normalise4
           (SEq_1 st + (SEqDot_omega_1 - (beta st * SEqHatDot_1)) * deltat st,
            SEq_2 st + (SEqDot_omega_2 - (beta st * SEqHatDot_2)) * deltat st,
            SEq_3 st + (SEqDot_omega_3 - (beta st * SEqHatDot_3)) * deltat st,
            SEq_4 st + (SEqDot_omega_4 - (beta st * SEqHatDot_4)) * deltat st))"
proof -
  obtain g1 g2 g3 g4 where g: "SEqHatDot st (ax, ay, az) (mx, my, mz) = (g1, g2, g3, g4)"
    by (cases "SEqHatDot st (ax, ay, az) (mx, my, mz)")
  obtain e1 e2 e3 where e: "w_err st (g1, g2, g3, g4) = (e1, e2, e3)"
    by (cases "w_err st (g1, g2, g3, g4)")
  have b: "w_bx (updateFilter st wx wy wz ax ay az mx my mz) = w_bx st + e1 * deltat st * zeta st"
      "w_by (updateFilter st wx wy wz ax ay az mx my mz) = w_by st + e2 * deltat st * zeta st"
      "w_bz (updateFilter st wx wy wz ax ay az mx my mz) = w_bz st + e3 * deltat st * zeta st"
    by (simp_all add: updateFilter_def g e gyro_bias_def store_auxiliary_def split: prod.splits)
  have q: "SEq (updateFilter st wx wy wz ax ay az mx my mz)
      = normalise4 (integrate st (wx, wy, wz)
          (w_bx st + e1 * deltat st * zeta st, w_by st + e2 * deltat st * zeta st,
           w_bz st + e3 * deltat st * zeta st) (g1, g2, g3, g4))"
    by (simp add: SEq_updateFilter SEq_integrated_def g e gyro_bias_def)
  show ?thesis
    by (simp add: g e b q integrate_def split: prod.splits)
qed

section \<open>The auxiliary frame\<close>

lemma firstUpdate_updateFilter:
  "firstUpdate (updateFilter st wx wy wz ax ay az mx my mz) = (if firstUpdate st = 0 then 1 else firstUpdate st)"
  by (simp add: updateFilter_def store_auxiliary_def split: prod.splits)

lemma AEq_updateFilter:
  "AEq (updateFilter st wx wy wz ax ay az mx my mz)
     = (if firstUpdate st = 0 then SEq (updateFilter st wx wy wz ax ay az mx my mz) else AEq st)"
  by (simp add: updateFilter_def store_auxiliary_def AEq_def SEq_def split: prod.splits)

lemma AEq_updates: "firstUpdate st \<noteq> 0 \<Longrightarrow> AEq (updates st ms) = AEq st"
proof (induction st ms rule: updates.induct)
  case (1 st)
  then show ?case by simp
next
  case (2 st wx wy wz ax ay az mx my mz ms)
  then show ?case
    by (simp add: firstUpdate_updateFilter AEq_updateFilter)
qed

text \<open>
  Claim C6. The first update after construction or \<open>reset\<close> (\<open>firstUpdate = 0\<close>) writes
  into \<open>AEq\<close> the quaternion it has just computed and stored in \<open>SEq\<close>, the
  normalised integrated quaternion, and sets \<open>firstUpdate\<close> to 1; any run of further
  updates leaves \<open>AEq\<close> at that value.
\<close>

theorem auxiliary_frame_fixed:
  assumes "firstUpdate st = 0"
  shows "AEq (updateFilter st wx wy wz ax ay az mx my mz)
           = normalise4 (SEq_integrated st (wx, wy, wz) (ax, ay, az) (mx, my, mz))
     \<and> SEq (updateFilter st wx wy wz ax ay az mx my mz)
           = normalise4 (SEq_integrated st (wx, wy, wz) (ax, ay, az) (mx, my, mz))
     \<and> firstUpdate (updateFilter st wx wy wz ax ay az mx my mz) = 1
     \<and> AEq (updates (updateFilter st wx wy wz ax ay az mx my mz) ms)
           = normalise4 (SEq_integrated st (wx, wy, wz) (ax, ay, az) (mx, my, mz))"
proof -
  have f: "firstUpdate (updateFilter st wx wy wz ax ay az mx my mz) = 1"
    using assms by (simp add: firstUpdate_updateFilter)
  then have "firstUpdate (updateFilter st wx wy wz ax ay az mx my mz) \<noteq> 0"
    by simp
  then have "AEq (updates (updateFilter st wx wy wz ax ay az mx my mz) ms)
      = AEq (updateFilter st wx wy wz ax ay az mx my mz)"
    by (rule AEq_updates)
  then show ?thesis
    using assms f by (simp add: AEq_updateFilter SEq_updateFilter)
qed

theorem auxiliary_frame_fixed_witness:
  "firstUpdate (reset margFilter) = 0
   \<and> AEq (updateFilter (reset margFilter) (Fin 0) (Fin 0) (Fin 1) (Fin 1) (Fin 0) (Fin 0) (Fin 1) (Fin 0) (Fin 0))
       = normalise4 (SEq_integrated (reset margFilter) (Fin 0, Fin 0, Fin 1) (Fin 1, Fin 0, Fin 0) (Fin 1, Fin 0, Fin 0))
   \<and> AEq (updates (updateFilter (reset margFilter) (Fin 0) (Fin 0) (Fin 1) (Fin 1) (Fin 0) (Fin 0) (Fin 1) (Fin 0) (Fin 0))
          [((Fin 0, Fin 0, Fin 1), (Fin 0, Fin 1, Fin 0), (Fin 1, Fin 0, Fin 0))])
       = normalise4 (SEq_integrated (reset margFilter) (Fin 0, Fin 0, Fin 1) (Fin 1, Fin 0, Fin 0) (Fin 1, Fin 0, Fin 0))"
proof -
  have h: "firstUpdate (reset margFilter) = 0"
    by (simp add: reset_def)
  from auxiliary_frame_fixed [OF h] h show ?thesis by blast
qed

section \<open>Reset and the Euler angles\<close>

text \<open>
  Claim C8. \<open>reset\<close> sets \<open>firstUpdate\<close> to 0, \<open>SEq\<close> and \<open>AEq\<close> to the identity
  quaternion, the gyroscope biases to zero, \<open>b_x\<close> to 1 and \<open>b_z\<close> to 0, and a second
  \<open>reset\<close> changes nothing.
\<close>

theorem reset_establishes:
  "firstUpdate (reset st) = 0
   \<and> SEq (reset st) = (Fin 1, Fin 0, Fin 0, Fin 0)
   \<and> AEq (reset st) = (Fin 1, Fin 0, Fin 0, Fin 0)
   \<and> (w_bx (reset st), w_by (reset st), w_bz (reset st)) = (Fin 0, Fin 0, Fin 0)
   \<and> b_x (reset st) = Fin 1 \<and> b_z (reset st) = Fin 0
   \<and> reset (reset st) = reset st"
  by (simp add: reset_def SEq_def AEq_def)

text \<open>
  Claim C10. The constructor, \<open>reset\<close> and \<open>updateFilter\<close> leave \<open>phi\<close>, \<open>theta\<close> and
  \<open>psi\<close> as they were: after \<open>reset\<close> the getters return the angles of the last
  \<open>computeEuler\<close>, and after the constructor they return whatever the storage held.
\<close>

theorem euler_fields_written_only_by_computeEuler:
  "phi (MARGfilter_ctor mem rate err drift) = phi mem
   \<and> theta (MARGfilter_ctor mem rate err drift) = theta mem
   \<and> psi (MARGfilter_ctor mem rate err drift) = psi mem
   \<and> phi (reset st) = phi st \<and> theta (reset st) = theta st \<and> psi (reset st) = psi st
   \<and> phi (updateFilter st wx wy wz ax ay az mx my mz) = phi st
   \<and> theta (updateFilter st wx wy wz ax ay az mx my mz) = theta st
   \<and> psi (updateFilter st wx wy wz ax ay az mx my mz) = psi st
   \<and> getRoll (reset (computeEuler st)) = getRoll (computeEuler st)
   \<and> getPitch (reset (computeEuler st)) = getPitch (computeEuler st)
   \<and> getYaw (reset (computeEuler st)) = getYaw (computeEuler st)
   \<and> getRoll (MARGfilter_ctor mem rate err drift) = phi mem
   \<and> getPitch (MARGfilter_ctor mem rate err drift) = theta mem
   \<and> getYaw (MARGfilter_ctor mem rate err drift) = psi mem"
  by (simp add: MARGfilter_ctor_def reset_def updateFilter_def store_auxiliary_def
      getRoll_def getPitch_def getYaw_def split: prod.splits)

lemma ASq_reset: "ASq (reset st) = (Fin 1, Fin 0, Fin 0, Fin 0)"
  by (simp add: ASq_def reset_def Let_def)

text \<open>
  Claim C7, as amended. After \<open>reset\<close> a call of \<open>computeEuler\<close> makes the three getters
  return 0; \<open>reset\<close> alone leaves what they return unchanged.
\<close>

theorem euler_after_reset:
  "getRoll (computeEuler (reset st)) = Fin 0
   \<and> getPitch (computeEuler (reset st)) = Fin 0
   \<and> getYaw (computeEuler (reset st)) = Fin 0
   \<and> getRoll (reset st) = getRoll st
   \<and> getPitch (reset st) = getPitch st
   \<and> getYaw (reset st) = getYaw st"
proof -
  have "getRoll (reset st) = getRoll st \<and> getPitch (reset st) = getPitch st
      \<and> getYaw (reset st) = getYaw st"
    by (simp add: reset_def getRoll_def getPitch_def getYaw_def)
  moreover have "getRoll (computeEuler (reset st)) = Fin 0
      \<and> getPitch (computeEuler (reset st)) = Fin 0
      \<and> getYaw (computeEuler (reset st)) = Fin 0"
    by (simp add: computeEuler_def ASq_reset getRoll_def getPitch_def getYaw_def atan2_real_def)
  ultimately show ?thesis by simp
qed

lemma ASq_rolled: "ASq rolled = (Fin 0.6, Fin (- 0.8), Fin 0, Fin 0)"
  by (simp add: ASq_def rolled_def margFilter_def MARGfilter_ctor_def zero_storage_def Let_def)

text \<open>
  The claim as stated fails: \<open>reset\<close> does not write the angles, so a filter whose
  last \<open>computeEuler\<close> found a roll still reports that roll after \<open>reset\<close>.
\<close>

theorem euler_after_reset_counterexample:
  "getRoll (reset (computeEuler rolled)) \<noteq> Fin 0"
proof -
  have "getRoll (reset (computeEuler rolled)) = Fin (atan2_real 0.96 (- 0.28))"
    by (simp add: getRoll_def reset_def computeEuler_def ASq_rolled)
  moreover have "atan2_real 0.96 (- 0.28) \<noteq> 0"
  proof -
    have "atan2_real 0.96 (- 0.28) = arctan (0.96 / (- 0.28)) + pi"
      by (simp add: atan2_real_def)
    moreover have "- (pi / 2) < arctan (0.96 / (- 0.28))"
      by (rule arctan_lbound)
    ultimately show ?thesis
      using pi_gt_zero by linarith
  qed
  ultimately show ?thesis by simp
qed


section \<open>Oversampling\<close>

lemma to_double_add [simp]: "to_double a + to_double b = to_double (a + b)"
  by (simp add: to_double_def)

lemma Fin_0_add [simp]: "Fin 0 + to_double a = to_double a"
  by (simp add: to_double_def)

lemma accelerometer_batch:
  assumes "accelerometerSamples g = 0" and "accel_sums g = (Fin 0, Fin 0, Fin 0)"
  shows "accel_slot (ticks sampleAccelerometer g [(x1, y1, z1), (x2, y2, z2), (x3, y3, z3)])
           = accel_slot g"
    and "accel_slot (ticks sampleAccelerometer g
           [(x1, y1, z1), (x2, y2, z2), (x3, y3, z3), (x4, y4, z4)]) = accel_slot g"
    and "accelerometerSamples (ticks sampleAccelerometer g
           [(x1, y1, z1), (x2, y2, z2), (x3, y3, z3), (x4, y4, z4)]) = 4"
    and "accel_sums (ticks sampleAccelerometer g
           [(x1, y1, z1), (x2, y2, z2), (x3, y3, z3), (x4, y4, z4)])
         = (to_double (sum_list [int16_t x1, int16_t x2, int16_t x3, int16_t x4]), to_double (sum_list [int16_t y1, int16_t y2, int16_t y3, int16_t y4]),
            to_double (sum_list [int16_t z1, int16_t z2, int16_t z3, int16_t z4]))"
    and "accel_slot (ticks sampleAccelerometer g
           [(x1, y1, z1), (x2, y2, z2), (x3, y3, z3), (x4, y4, z4), r5])
         = (spec_average (a_xBias g) ACCELEROMETER_GAIN [int16_t x1, int16_t x2, int16_t x3, int16_t x4],
            spec_average (a_yBias g) ACCELEROMETER_GAIN [int16_t y1, int16_t y2, int16_t y3, int16_t y4],
            spec_average (a_zBias g) ACCELEROMETER_GAIN [int16_t z1, int16_t z2, int16_t z3, int16_t z4])"
    and "accel_sums (ticks sampleAccelerometer g
           [(x1, y1, z1), (x2, y2, z2), (x3, y3, z3), (x4, y4, z4), r5]) = (Fin 0, Fin 0, Fin 0)"
    and "accelerometerSamples (ticks sampleAccelerometer g
           [(x1, y1, z1), (x2, y2, z2), (x3, y3, z3), (x4, y4, z4), r5]) = 0"
  using assms
  by (simp_all add: ticks_def sampleAccelerometer_def SAMPLES_def accel_slot_def accel_sums_def
      spec_average_def add.assoc split: prod.splits)

lemma gyroscope_batch:
  assumes "gyroscopeSamples g = 0" and "gyro_sums g = (Fin 0, Fin 0, Fin 0)"
  shows "gyro_slot (ticks sampleGyroscope g [(x1, y1, z1), (x2, y2, z2), (x3, y3, z3)])
           = gyro_slot g"
    and "gyro_slot (ticks sampleGyroscope g
           [(x1, y1, z1), (x2, y2, z2), (x3, y3, z3), (x4, y4, z4)]) = gyro_slot g"
    and "gyroscopeSamples (ticks sampleGyroscope g
           [(x1, y1, z1), (x2, y2, z2), (x3, y3, z3), (x4, y4, z4)]) = 4"
    and "gyro_sums (ticks sampleGyroscope g
           [(x1, y1, z1), (x2, y2, z2), (x3, y3, z3), (x4, y4, z4)])
         = (to_double (sum_list [x1, x2, x3, x4]), to_double (sum_list [y1, y2, y3, y4]),
            to_double (sum_list [z1, z2, z3, z4]))"
    and "gyro_slot (ticks sampleGyroscope g
           [(x1, y1, z1), (x2, y2, z2), (x3, y3, z3), (x4, y4, z4), r5])
         = (toRadians (spec_average (w_xBias g) GYROSCOPE_GAIN [x1, x2, x3, x4]),
            toRadians (spec_average (w_yBias g) GYROSCOPE_GAIN [y1, y2, y3, y4]),
            toRadians (spec_average (w_zBias g) GYROSCOPE_GAIN [z1, z2, z3, z4]))"
    and "gyro_sums (ticks sampleGyroscope g
           [(x1, y1, z1), (x2, y2, z2), (x3, y3, z3), (x4, y4, z4), r5]) = (Fin 0, Fin 0, Fin 0)"
    and "gyroscopeSamples (ticks sampleGyroscope g
           [(x1, y1, z1), (x2, y2, z2), (x3, y3, z3), (x4, y4, z4), r5]) = 0"
  using assms
  by (simp_all add: ticks_def sampleGyroscope_def SAMPLES_def gyro_slot_def gyro_sums_def
      spec_average_def add.assoc split: prod.splits)

lemma magnetometer_batch:
  assumes "magnetometerSamples g = 0" and "mag_sums g = (Fin 0, Fin 0, Fin 0)"
  shows "mag_slot (ticks sampleMagnetometer g [(x1, y1, z1), (x2, y2, z2), (x3, y3, z3)])
           = mag_slot g"
    and "mag_slot (ticks sampleMagnetometer g
           [(x1, y1, z1), (x2, y2, z2), (x3, y3, z3), (x4, y4, z4)]) = mag_slot g"
    and "magnetometerSamples (ticks sampleMagnetometer g
           [(x1, y1, z1), (x2, y2, z2), (x3, y3, z3), (x4, y4, z4)]) = 4"
    and "mag_sums (ticks sampleMagnetometer g
           [(x1, y1, z1), (x2, y2, z2), (x3, y3, z3), (x4, y4, z4)])
         = (to_double (sum_list [int16_t x1, int16_t x2, int16_t x3, int16_t x4]), to_double (sum_list [int16_t y1, int16_t y2, int16_t y3, int16_t y4]),
            to_double (sum_list [int16_t z1, int16_t z2, int16_t z3, int16_t z4]))"
    and "mag_slot (ticks sampleMagnetometer g
           [(x1, y1, z1), (x2, y2, z2), (x3, y3, z3), (x4, y4, z4), r5])
         = (spec_average (m_xBias g) MAGNETOMETER_GAIN [int16_t x1, int16_t x2, int16_t x3, int16_t x4],
            spec_average (m_yBias g) MAGNETOMETER_GAIN [int16_t y1, int16_t y2, int16_t y3, int16_t y4],
            spec_average (m_zBias g) MAGNETOMETER_GAIN [int16_t z1, int16_t z2, int16_t z3, int16_t z4])"
    and "mag_sums (ticks sampleMagnetometer g
           [(x1, y1, z1), (x2, y2, z2), (x3, y3, z3), (x4, y4, z4), r5]) = (Fin 0, Fin 0, Fin 0)"
    and "magnetometerSamples (ticks sampleMagnetometer g
           [(x1, y1, z1), (x2, y2, z2), (x3, y3, z3), (x4, y4, z4), r5]) = 0"
  using assms
  by (simp_all add: ticks_def sampleMagnetometer_def SAMPLES_def mag_slot_def mag_sums_def
      spec_average_def add.assoc split: prod.splits)

text \<open>
  Claim C4, as amended. From count 0 and zero sums, each of the three samplers adds one
  raw sample in each of its first four calls and writes no reading: after three and
  after four samples the latest reading is what it was, and after four the count is 4
  and the sums hold the four samples.
  The fifth call reads no sample; it writes the sum of the four samples divided by 4,
  minus the bias, times the gain (for the gyroscope converted to radians), and sets the
  sums and the count to zero.
\<close>

theorem accumulator_batch:
  assumes "accelerometerSamples g = 0" and "accel_sums g = (Fin 0, Fin 0, Fin 0)"
    and "gyroscopeSamples g = 0" and "gyro_sums g = (Fin 0, Fin 0, Fin 0)"
    and "magnetometerSamples g = 0" and "mag_sums g = (Fin 0, Fin 0, Fin 0)"
  shows "accel_slot (ticks sampleAccelerometer g [(x1, y1, z1), (x2, y2, z2), (x3, y3, z3)])
           = accel_slot g
     \<and> accel_slot (ticks sampleAccelerometer g
           [(x1, y1, z1), (x2, y2, z2), (x3, y3, z3), (x4, y4, z4)]) = accel_slot g
     \<and> accelerometerSamples (ticks sampleAccelerometer g
           [(x1, y1, z1), (x2, y2, z2), (x3, y3, z3), (x4, y4, z4)]) = 4
     \<and> accel_sums (ticks sampleAccelerometer g
           [(x1, y1, z1), (x2, y2, z2), (x3, y3, z3), (x4, y4, z4)])
         = (to_double (sum_list [int16_t x1, int16_t x2, int16_t x3, int16_t x4]), to_double (sum_list [int16_t y1, int16_t y2, int16_t y3, int16_t y4]),
            to_double (sum_list [int16_t z1, int16_t z2, int16_t z3, int16_t z4]))
     \<and> accel_slot (ticks sampleAccelerometer g
           [(x1, y1, z1), (x2, y2, z2), (x3, y3, z3), (x4, y4, z4), r5])
         = (spec_average (a_xBias g) ACCELEROMETER_GAIN [int16_t x1, int16_t x2, int16_t x3, int16_t x4],
            spec_average (a_yBias g) ACCELEROMETER_GAIN [int16_t y1, int16_t y2, int16_t y3, int16_t y4],
            spec_average (a_zBias g) ACCELEROMETER_GAIN [int16_t z1, int16_t z2, int16_t z3, int16_t z4])
     \<and> accel_sums (ticks sampleAccelerometer g
           [(x1, y1, z1), (x2, y2, z2), (x3, y3, z3), (x4, y4, z4), r5]) = (Fin 0, Fin 0, Fin 0)
     \<and> accelerometerSamples (ticks sampleAccelerometer g
           [(x1, y1, z1), (x2, y2, z2), (x3, y3, z3), (x4, y4, z4), r5]) = 0
     \<and> gyro_slot (ticks sampleGyroscope g [(x1, y1, z1), (x2, y2, z2), (x3, y3, z3)])
           = gyro_slot g
     \<and> gyro_slot (ticks sampleGyroscope g
           [(x1, y1, z1), (x2, y2, z2), (x3, y3, z3), (x4, y4, z4)]) = gyro_slot g
     \<and> gyroscopeSamples (ticks sampleGyroscope g
           [(x1, y1, z1), (x2, y2, z2), (x3, y3, z3), (x4, y4, z4)]) = 4
     \<and> gyro_sums (ticks sampleGyroscope g
           [(x1, y1, z1), (x2, y2, z2), (x3, y3, z3), (x4, y4, z4)])
         = (to_double (sum_list [x1, x2, x3, x4]), to_double (sum_list [y1, y2, y3, y4]),
            to_double (sum_list [z1, z2, z3, z4]))
     \<and> gyro_slot (ticks sampleGyroscope g
           [(x1, y1, z1), (x2, y2, z2), (x3, y3, z3), (x4, y4, z4), r5])
         = (toRadians (spec_average (w_xBias g) GYROSCOPE_GAIN [x1, x2, x3, x4]),
            toRadians (spec_average (w_yBias g) GYROSCOPE_GAIN [y1, y2, y3, y4]),
            toRadians (spec_average (w_zBias g) GYROSCOPE_GAIN [z1, z2, z3, z4]))
     \<and> gyro_sums (ticks sampleGyroscope g
           [(x1, y1, z1), (x2, y2, z2), (x3, y3, z3), (x4, y4, z4), r5]) = (Fin 0, Fin 0, Fin 0)
     \<and> gyroscopeSamples (ticks sampleGyroscope g
           [(x1, y1, z1), (x2, y2, z2), (x3, y3, z3), (x4, y4, z4), r5]) = 0
     \<and> mag_slot (ticks sampleMagnetometer g [(x1, y1, z1), (x2, y2, z2), (x3, y3, z3)])
           = mag_slot g
     \<and> mag_slot (ticks sampleMagnetometer g
           [(x1, y1, z1), (x2, y2, z2), (x3, y3, z3), (x4, y4, z4)]) = mag_slot g
     \<and> magnetometerSamples (ticks sampleMagnetometer g
           [(x1, y1, z1), (x2, y2, z2), (x3, y3, z3), (x4, y4, z4)]) = 4
     \<and> mag_sums (ticks sampleMagnetometer g
           [(x1, y1, z1), (x2, y2, z2), (x3, y3, z3), (x4, y4, z4)])
         = (to_double (sum_list [int16_t x1, int16_t x2, int16_t x3, int16_t x4]), to_double (sum_list [int16_t y1, int16_t y2, int16_t y3, int16_t y4]),
            to_double (sum_list [int16_t z1, int16_t z2, int16_t z3, int16_t z4]))
     \<and> mag_slot (ticks sampleMagnetometer g
           [(x1, y1, z1), (x2, y2, z2), (x3, y3, z3), (x4, y4, z4), r5])
         = (spec_average (m_xBias g) MAGNETOMETER_GAIN [int16_t x1, int16_t x2, int16_t x3, int16_t x4],
            spec_average (m_yBias g) MAGNETOMETER_GAIN [int16_t y1, int16_t y2, int16_t y3, int16_t y4],
            spec_average (m_zBias g) MAGNETOMETER_GAIN [int16_t z1, int16_t z2, int16_t z3, int16_t z4])
     \<and> mag_sums (ticks sampleMagnetometer g
           [(x1, y1, z1), (x2, y2, z2), (x3, y3, z3), (x4, y4, z4), r5]) = (Fin 0, Fin 0, Fin 0)
     \<and> magnetometerSamples (ticks sampleMagnetometer g
           [(x1, y1, z1), (x2, y2, z2), (x3, y3, z3), (x4, y4, z4), r5]) = 0"
proof -
  note a = accelerometer_batch [OF assms(1,2)]
  note w = gyroscope_batch [OF assms(3,4)]
  note m = magnetometer_batch [OF assms(5,6)]
  show ?thesis
    by (intro conjI a w m)
qed

theorem accumulator_batch_witness:
  "accelerometerSamples startup = 0 \<and> accel_sums startup = (Fin 0, Fin 0, Fin 0)
   \<and> gyroscopeSamples startup = 0 \<and> gyro_sums startup = (Fin 0, Fin 0, Fin 0)
   \<and> magnetometerSamples startup = 0 \<and> mag_sums startup = (Fin 0, Fin 0, Fin 0)
   \<and> accel_slot (ticks sampleAccelerometer startup [(4, 8, 12), (4, 8, 12), (4, 8, 12), (4, 8, 12)])
       = accel_slot startup
   \<and> accel_sums (ticks sampleAccelerometer startup [(4, 8, 12), (4, 8, 12), (4, 8, 12), (4, 8, 12)])
       = (to_double (sum_list [int16_t 4, int16_t 4, int16_t 4, int16_t 4]),
          to_double (sum_list [int16_t 8, int16_t 8, int16_t 8, int16_t 8]),
          to_double (sum_list [int16_t 12, int16_t 12, int16_t 12, int16_t 12]))
   \<and> accel_slot (ticks sampleAccelerometer startup
         [(4, 8, 12), (4, 8, 12), (4, 8, 12), (4, 8, 12), (0, 0, 0)])
       = (spec_average (a_xBias startup) ACCELEROMETER_GAIN [int16_t 4, int16_t 4, int16_t 4, int16_t 4],
          spec_average (a_yBias startup) ACCELEROMETER_GAIN [int16_t 8, int16_t 8, int16_t 8, int16_t 8],
          spec_average (a_zBias startup) ACCELEROMETER_GAIN [int16_t 12, int16_t 12, int16_t 12, int16_t 12])"
proof -
  have h: "accelerometerSamples startup = 0" "accel_sums startup = (Fin 0, Fin 0, Fin 0)"
      "gyroscopeSamples startup = 0" "gyro_sums startup = (Fin 0, Fin 0, Fin 0)"
      "magnetometerSamples startup = 0" "mag_sums startup = (Fin 0, Fin 0, Fin 0)"
    by (simp_all add: startup_def accel_sums_def gyro_sums_def mag_sums_def)
  from accumulator_batch [OF h, of 4 8 12 4 8 12 4 8 12 4 8 12 "(0, 0, 0)"] h
  show ?thesis by blast
qed

text \<open>
  The claim as stated fails: after exactly four samples from the start of the program
  the averaged reading is still unwritten (0, where the claimed reading is not 0), the
  sum is 16 and the count is 4.
\<close>

theorem accumulator_four_samples_counterexample:
  "accelerometerSamples startup = 0
   \<and> accel_sums startup = (Fin 0, Fin 0, Fin 0)
   \<and> a_x (ticks sampleAccelerometer startup [(4, 4, 4), (4, 4, 4), (4, 4, 4), (4, 4, 4)]) = Fin 0
   \<and> spec_average (a_xBias startup) ACCELEROMETER_GAIN [4, 4, 4, 4] \<noteq> Fin 0
   \<and> a_xAccumulator (ticks sampleAccelerometer startup [(4, 4, 4), (4, 4, 4), (4, 4, 4), (4, 4, 4)]) = Fin 16
   \<and> accelerometerSamples (ticks sampleAccelerometer startup [(4, 4, 4), (4, 4, 4), (4, 4, 4), (4, 4, 4)]) = 4"
  by (simp add: ticks_def sampleAccelerometer_def SAMPLES_def startup_def accel_sums_def
      spec_average_def ACCELEROMETER_GAIN_def g0_def to_double_def int16_t_def)

section \<open>Calibration\<close>

lemma accumulateAccelerometer_loop:
  assumes "accel_sums g = (Fin sx, Fin sy, Fin sz)"
  shows "accel_sums (fold (accumulateAccelerometer sensor) [0..<n] g)
     = (Fin (sx + (\<Sum>i<n. real_of_int (int16_t (fst (sensor i))))),
        Fin (sy + (\<Sum>i<n. real_of_int (int16_t (fst (snd (sensor i)))))),
        Fin (sz + (\<Sum>i<n. real_of_int (int16_t (snd (snd (sensor i)))))))"
proof (induction n)
  case 0
  then show ?case using assms by simp
next
  case (Suc n)
  then show ?case
    by (simp add: accumulateAccelerometer_def accel_sums_def to_double_def split: prod.splits)
qed

lemma accumulateGyroscope_loop:
  assumes "gyro_sums g = (Fin sx, Fin sy, Fin sz)"
  shows "gyro_sums (fold (accumulateGyroscope sensor) [0..<n] g)
     = (Fin (sx + (\<Sum>i<n. real_of_int (fst (sensor i)))),
        Fin (sy + (\<Sum>i<n. real_of_int (fst (snd (sensor i))))),
        Fin (sz + (\<Sum>i<n. real_of_int (snd (snd (sensor i))))))"
proof (induction n)
  case 0
  then show ?case using assms by simp
next
  case (Suc n)
  then show ?case
    by (simp add: accumulateGyroscope_def gyro_sums_def to_double_def split: prod.splits)
qed

lemma accumulateMagnetometer_loop:
  assumes "mag_sums g = (Fin sx, Fin sy, Fin sz)"
  shows "mag_sums (fold (accumulateMagnetometer sensor) [0..<n] g)
     = (Fin (sx + (\<Sum>i<n. real_of_int (int16_t (fst (sensor i))))),
        Fin (sy + (\<Sum>i<n. real_of_int (int16_t (fst (snd (sensor i)))))),
        Fin (sz + (\<Sum>i<n. real_of_int (int16_t (snd (snd (sensor i)))))))"
proof (induction n)
  case 0
  then show ?case using assms by simp
next
  case (Suc n)
  then show ?case
    by (simp add: accumulateMagnetometer_def mag_sums_def to_double_def split: prod.splits)
qed

lemma calibrateAccelerometer_bias:
  "a_xBias (calibrateAccelerometer g sensor) = Fin (mean (\<lambda>i. int16_t (fst (sensor i))) 128)
   \<and> a_yBias (calibrateAccelerometer g sensor) = Fin (mean (\<lambda>i. int16_t (fst (snd (sensor i)))) 128)
   \<and> a_zBias (calibrateAccelerometer g sensor)
        = Fin (mean (\<lambda>i. int16_t (snd (snd (sensor i)))) 128 - 250)"
proof -
  have "accel_sums (g\<lparr>a_xAccumulator := Fin 0, a_yAccumulator := Fin 0, a_zAccumulator := Fin 0\<rparr>)
      = (Fin 0, Fin 0, Fin 0)"
    by (simp add: accel_sums_def)
  from accumulateAccelerometer_loop [OF this, of sensor 128] show ?thesis
    by (simp add: calibrateAccelerometer_def CALIBRATION_SAMPLES_def Let_def accel_sums_def
        to_double_def mean_def)
qed

lemma calibrateGyroscope_bias:
  "w_xBias (calibrateGyroscope g sensor) = Fin (mean (\<lambda>i. fst (sensor i)) 128)
   \<and> w_yBias (calibrateGyroscope g sensor) = Fin (mean (\<lambda>i. fst (snd (sensor i))) 128)
   \<and> w_zBias (calibrateGyroscope g sensor) = Fin (mean (\<lambda>i. snd (snd (sensor i))) 128)"
proof -
  have "gyro_sums (g\<lparr>w_xAccumulator := Fin 0, w_yAccumulator := Fin 0, w_zAccumulator := Fin 0\<rparr>)
      = (Fin 0, Fin 0, Fin 0)"
    by (simp add: gyro_sums_def)
  from accumulateGyroscope_loop [OF this, of sensor 128] show ?thesis
    by (simp add: calibrateGyroscope_def CALIBRATION_SAMPLES_def Let_def gyro_sums_def
        to_double_def mean_def)
qed

lemma calibrateMagnetometer_bias:
  "m_xBias (calibrateMagnetometer g sensor)
     = Fin ((\<Sum>i<20. real_of_int (int16_t (fst (sensor i)))) / 128)
   \<and> m_yBias (calibrateMagnetometer g sensor)
     = Fin ((\<Sum>i<20. real_of_int (int16_t (fst (snd (sensor i))))) / 128)
   \<and> m_zBias (calibrateMagnetometer g sensor)
     = Fin ((\<Sum>i<20. real_of_int (int16_t (snd (snd (sensor i))))) / 128)"
proof -
  have "mag_sums (g\<lparr>m_xAccumulator := Fin 0, m_yAccumulator := Fin 0, m_zAccumulator := Fin 0\<rparr>)
      = (Fin 0, Fin 0, Fin 0)"
    by (simp add: mag_sums_def)
  from accumulateMagnetometer_loop [OF this, of sensor 20] show ?thesis
    by (simp add: calibrateMagnetometer_def CALIBRATION_SAMPLES_def Let_def mag_sums_def
        to_double_def)
qed

text \<open>
  Claim C5 at the magnetometer. The loop of \<open>calibrateMagnetometer\<close> takes 20 readings
  and line 1192 divides their sum by 128: for a sensor that always delivers 128 on each
  axis the mean of the readings is 128 and the bias the code stores is 20.
\<close>

theorem calibrateMagnetometer_not_mean:
  "mean (\<lambda>i. int16_t 128) 20 = 128
   \<and> m_xBias (calibrateMagnetometer g (\<lambda>i. (128, 128, 128))) = Fin 20
   \<and> m_yBias (calibrateMagnetometer g (\<lambda>i. (128, 128, 128))) = Fin 20
   \<and> m_zBias (calibrateMagnetometer g (\<lambda>i. (128, 128, 128))) = Fin 20"
proof -
  have i: "int16_t 128 = 128"
    by (simp add: int16_t_def)
  show ?thesis
    using calibrateMagnetometer_bias [of g "\<lambda>i. (128, 128, 128)"]
    by (simp add: i mean_def)
qed

section \<open>The Euler angles\<close>

text \<open>
  \<open>computeEuler\<close> writes the three angles and nothing else, and the quaternion it
  converts is the Hamilton product of the conjugate of \<open>SEq\<close> with \<open>AEq\<close>. The
  standard pitch is the arcsine of an entry of the rotation matrix, which lies between
  -1 and 1 for every unit quaternion, so that it is always a finite angle.
\<close>

lemma computeEuler_frame:
  "SEq (computeEuler st) = SEq st \<and> AEq (computeEuler st) = AEq st
   \<and> w_bx (computeEuler st) = w_bx st \<and> w_by (computeEuler st) = w_by st
   \<and> w_bz (computeEuler st) = w_bz st
   \<and> b_x (computeEuler st) = b_x st \<and> b_z (computeEuler st) = b_z st
   \<and> firstUpdate (computeEuler st) = firstUpdate st"
  by (simp add: computeEuler_def SEq_def AEq_def split: prod.splits)

lemma ASq_is_product: "ASq st = qmult (qconj (SEq st)) (AEq st)"
  by (simp add: ASq_def qmult_def qconj_def SEq_def AEq_def Let_def)

lemma unit_entry_bound:
  fixes a b c d :: real
  assumes "a * a + b * b + c * c + d * d = 1"
  shows "\<bar>2 * b * d + 2 * a * c\<bar> \<le> 1" and "\<bar>2 * b * d - 2 * a * c\<bar> \<le> 1"
proof -
  have "0 \<le> (a + c) * (a + c) + (b + d) * (b + d)"
    by simp
  moreover have "0 \<le> (a - c) * (a - c) + (b - d) * (b - d)"
    by simp
  ultimately show "\<bar>2 * b * d + 2 * a * c\<bar> \<le> 1"
    using assms by (simp add: algebra_simps abs_le_iff)
  have "0 \<le> (a + c) * (a + c) + (b - d) * (b - d)"
    by simp
  moreover have "0 \<le> (a - c) * (a - c) + (b + d) * (b + d)"
    by simp
  ultimately show "\<bar>2 * b * d - 2 * a * c\<bar> \<le> 1"
    using assms by (simp add: algebra_simps abs_le_iff)
qed

lemma standard_pitch_finite:
  assumes "quat_norm (Fin a, Fin b, Fin c, Fin d) = Fin 1"
  shows "is_fin (standard_pitch (Fin a, Fin b, Fin c, Fin d))"
proof -
  from assms have "sqrt (a * a + b * b + c * c + d * d) = 1"
    by (simp add: quat_norm_Fin)
  then have "a * a + b * b + c * c + d * d = 1"
    by simp
  then have "\<bar>2 * b * d + 2 * a * c\<bar> \<le> 1"
    by (rule unit_entry_bound(1))
  then show ?thesis
    by (simp add: standard_pitch_def)
qed

text \<open>
  Claim C9 at the pitch. For the unit quaternion \<open>(-0.5, -0.5, -0.7, -0.1)\<close> and the
  identity as auxiliary frame, line 235 takes the arcsine of 1.4 and the pitch is NaN;
  the standard formula gives \<open>arcsin 0.6\<close>.
\<close>

theorem computeEuler_pitch_not_standard:
  "quat_norm (SEq pitched) = Fin 1
   \<and> AEq pitched = (Fin 1, Fin 0, Fin 0, Fin 0)
   \<and> ASq pitched = (Fin (- 0.5), Fin 0.5, Fin 0.7, Fin 0.1)
   \<and> getPitch (computeEuler pitched) = NaN
   \<and> standard_pitch (ASq pitched) = Fin (arcsin 0.6)"
proof -
  have a: "ASq pitched = (Fin (- 0.5), Fin 0.5, Fin 0.7, Fin 0.1)"
    by (simp add: ASq_def pitched_def margFilter_def MARGfilter_ctor_def zero_storage_def Let_def)
  have "quat_norm (SEq pitched) = Fin 1"
    by (simp add: SEq_def pitched_def quat_norm_def)
  moreover have "AEq pitched = (Fin 1, Fin 0, Fin 0, Fin 0)"
    by (simp add: AEq_def pitched_def margFilter_def MARGfilter_ctor_def zero_storage_def)
  moreover have "getPitch (computeEuler pitched) = NaN"
    by (simp add: getPitch_def computeEuler_def a)
  moreover have "standard_pitch (ASq pitched) = Fin (arcsin 0.6)"
    by (simp add: standard_pitch_def a arcsin_minus)
  ultimately show ?thesis
    using a by simp
qed

section \<open>Rounding to the nearest double\<close>

text \<open>
  The rounding error of \<open>round64\<close> away from overflow is at most the relative error
  \<open>2 ^ - 53\<close> plus half the smallest subnormal number, and a multiple of a power of two
  with a significand of at most 53 bits is a double and is returned unchanged.
\<close>

lemma round_even_close: "\<bar>of_int (round_even y) - y\<bar> \<le> 1 / 2"
  unfolding round_even_def Let_def by (simp; linarith)

lemma round_even_of_int [simp]: "round_even (of_int n) = n"
  by (simp add: round_even_def)

lemma ulp_pos: "0 < (2::real) powr of_int (ulp_exponent x)"
  by simp

lemma ulp_bound:
  assumes "x \<noteq> 0"
  shows "(2::real) powr of_int (ulp_exponent x) \<le> \<bar>x\<bar> / 2 ^ 52 + 1 / 2 ^ 1074"
proof (cases "- 1022 \<le> \<lfloor>log 2 \<bar>x\<bar>\<rfloor>")
  case True
  then have "ulp_exponent x = \<lfloor>log 2 \<bar>x\<bar>\<rfloor> - 52"
    by (simp add: ulp_exponent_def)
  then have "(2::real) powr of_int (ulp_exponent x) = 2 powr (of_int \<lfloor>log 2 \<bar>x\<bar>\<rfloor>) / 2 powr 52"
    by (simp add: powr_diff)
  also have "\<dots> \<le> 2 powr (log 2 \<bar>x\<bar>) / 2 powr 52"
    by (intro divide_right_mono) simp_all
  also have "\<dots> = \<bar>x\<bar> / 2 ^ 52"
    using assms by simp
  finally show ?thesis
    by (simp add: add_increasing2)
next
  case False
  then have "ulp_exponent x = - 1074"
    by (simp add: ulp_exponent_def)
  then have "(2::real) powr of_int (ulp_exponent x) = 1 / 2 ^ 1074"
    by (simp add: powr_minus_divide)
  then show ?thesis
    by simp
qed

lemma round64_error:
  assumes "\<bar>x\<bar> < 2 ^ 1023"
  shows "\<exists>y. round64 x = Fin y \<and> \<bar>y - x\<bar> \<le> \<bar>x\<bar> / 2 ^ 53 + 1 / 2 ^ 1075"
proof (cases "x = 0")
  case True
  then show ?thesis by (simp add: round64_def)
next
  case False
  define ulp where "ulp = (2::real) powr of_int (ulp_exponent x)"
  define y where "y = of_int (round_even (x / ulp)) * ulp"
  have ulp: "0 < ulp" "ulp \<le> \<bar>x\<bar> / 2 ^ 52 + 1 / 2 ^ 1074"
    unfolding ulp_def by (rule ulp_pos, rule ulp_bound [OF False])
  have "y - x = (of_int (round_even (x / ulp)) - x / ulp) * ulp"
    using ulp(1) by (simp add: y_def algebra_simps)
  then have "\<bar>y - x\<bar> = \<bar>of_int (round_even (x / ulp)) - x / ulp\<bar> * ulp"
    using ulp(1) by (simp add: abs_mult)
  also have "\<dots> \<le> 1 / 2 * ulp"
    using ulp(1) by (intro mult_right_mono round_even_close) simp
  also have "\<dots> \<le> 1 / 2 * (\<bar>x\<bar> / 2 ^ 52 + 1 / 2 ^ 1074)"
    using ulp(2) by simp
  also have "\<dots> = \<bar>x\<bar> / 2 ^ 53 + 1 / 2 ^ 1075"
    by simp
  finally have err: "\<bar>y - x\<bar> \<le> \<bar>x\<bar> / 2 ^ 53 + 1 / 2 ^ 1075" .
  have "\<bar>x\<bar> / 2 ^ 53 \<le> \<bar>x\<bar> / 2"
    by (intro divide_left_mono) simp_all
  moreover have "(1::real) / 2 ^ 1075 \<le> 2 ^ 1023 / 2"
    by simp
  moreover have "(2::real) ^ 1024 = 2 * 2 ^ 1023"
    by simp
  ultimately have "\<bar>y\<bar> < 2 ^ 1024"
    using err assms by linarith
  then have "round64 x = Fin y"
    using False by (simp add: round64_def Let_def ulp_def [symmetric] y_def [symmetric])
  with err show ?thesis by blast
qed

lemma round64_exact:
  assumes x: "x = of_int k * 2 powr of_int j"
    and k: "\<bar>k\<bar> < 2 ^ 53" and j: "- 1074 \<le> j" and r: "\<bar>x\<bar> < 2 ^ 1024"
  shows "round64 x = Fin x"
proof (cases "x = 0")
  case True
  then show ?thesis by (simp add: round64_def)
next
  case False
  then have k0: "k \<noteq> 0"
    using x by auto
  define e where "e = ulp_exponent x"
  have "\<bar>x\<bar> = of_int \<bar>k\<bar> * 2 powr of_int j"
    by (simp add: x abs_mult)
  also have "\<dots> < 2 ^ 53 * 2 powr of_int j"
  proof -
    have "real_of_int \<bar>k\<bar> < 2 ^ 53"
      using k by (metis of_int_less_iff of_int_numeral of_int_power)
    then show ?thesis by simp
  qed
  also have "\<dots> = 2 powr (53 + of_int j)"
    by (simp add: powr_add powr_numeral)
  finally have "log 2 \<bar>x\<bar> < 53 + of_int j"
    using False by (simp add: log_less_iff)
  then have "\<lfloor>log 2 \<bar>x\<bar>\<rfloor> < 53 + j"
    by (simp add: floor_less_iff)
  then have ej: "e \<le> j"
    using j by (simp add: e_def ulp_exponent_def)
  define n where "n = nat (j - e)"
  have "2 powr of_int j = 2 powr (of_int e + real n)"
    using ej by (simp add: n_def)
  also have "\<dots> = 2 powr of_int e * 2 ^ n"
    by (simp add: powr_add powr_realpow)
  finally have q: "x / 2 powr of_int e = of_int (k * 2 ^ n)"
    by (simp add: x)
  then have "round_even (x / 2 powr of_int e) = k * 2 ^ n"
    by (simp only: round_even_of_int)
  then have "of_int (round_even (x / 2 powr of_int e)) * 2 powr of_int e
      = x / 2 powr of_int e * 2 powr of_int e"
    by (simp only: q)
  then have "of_int (round_even (x / 2 powr of_int e)) * 2 powr of_int e = x"
    by simp
  then show ?thesis
    using False r by (simp add: round64_def Let_def e_def [symmetric])
qed

lemma round64_of_int:
  assumes "\<bar>k\<bar> < 2 ^ 53"
  shows "round64 (of_int k) = Fin (of_int k)"
proof -
  have "\<bar>real_of_int k\<bar> < 2 ^ 53"
    using assms by (metis of_int_abs of_int_less_iff of_int_numeral of_int_power)
  moreover have "(2::real) ^ 53 < 2 ^ 1024"
    by simp
  ultimately have "\<bar>real_of_int k\<bar> < 2 ^ 1024"
    by linarith
  then show ?thesis
    using assms by (intro round64_exact [where k = k and j = 0]) simp_all
qed

lemma round64_numeral [simp]:
  "numeral n < (2::int) ^ 53 \<Longrightarrow> round64 (numeral n) = Fin (numeral n)"
  "numeral n < (2::int) ^ 53 \<Longrightarrow> round64 (- numeral n) = Fin (- numeral n)"
  using round64_of_int [of "numeral n"] round64_of_int [of "- numeral n"] by simp_all

lemma round64_0 [simp]: "round64 0 = Fin 0"
  by (simp add: round64_def)

lemma round64_1 [simp]: "round64 1 = Fin 1" "round64 (- 1) = Fin (- 1)"
  using round64_of_int [of 1] round64_of_int [of "- 1"] by simp_all

lemma round64_half [simp]: "round64 (1 / 2) = Fin (1 / 2)"
  by (rule round64_exact [where k = 1 and j = "- 1"]) (simp_all add: powr_minus_divide)

lemma round64_three_quarters [simp]: "round64 (3 / 4) = Fin (3 / 4)"
  by (rule round64_exact [where k = 3 and j = "- 2"]) (simp_all add: powr_minus_divide)

lemma lit_simps [simp]:
  "lit 0 = B64 (Fin 0)" "lit 1 = B64 (Fin 1)" "lit (1 / 2) = B64 (Fin (1 / 2))"
  "numeral n < (2::int) ^ 53 \<Longrightarrow> lit (numeral n) = B64 (Fin (numeral n))"
  by (simp_all add: lit_def)

lemma rd_NaN_ops [simp]:
  "rd (NaN + a) = NaN" "rd (a + NaN) = NaN" "rd (NaN - a) = NaN" "rd (a - NaN) = NaN"
  "rd (NaN * a) = NaN" "rd (a * NaN) = NaN" "rd (NaN / a) = NaN" "rd (a / NaN) = NaN"
  by simp_all

lemma NaN64 [simp]:
  "B64 NaN + b = B64 NaN" "b + B64 NaN = B64 NaN" "B64 NaN - b = B64 NaN" "b - B64 NaN = B64 NaN"
  "B64 NaN * b = B64 NaN" "b * B64 NaN = B64 NaN" "B64 NaN / b = B64 NaN" "b / B64 NaN = B64 NaN"
  by (cases b; simp)+

lemma round64_within:
  assumes "\<bar>x\<bar> \<le> B" and "B < 2 ^ 1023"
  obtains y where "round64 x = Fin y" and "\<bar>y - x\<bar> \<le> B / 2 ^ 53 + 1 / 2 ^ 1075"
proof -
  have "\<bar>x\<bar> < 2 ^ 1023"
    using assms by linarith
  from round64_error [OF this] obtain y
    where y: "round64 x = Fin y" "\<bar>y - x\<bar> \<le> \<bar>x\<bar> / 2 ^ 53 + 1 / 2 ^ 1075"
    by blast
  have "\<bar>x\<bar> / 2 ^ 53 \<le> B / 2 ^ 53"
    using assms(1) by (simp add: divide_right_mono)
  with y(2) have "\<bar>y - x\<bar> \<le> B / 2 ^ 53 + 1 / 2 ^ 1075"
    by linarith
  with y(1) show ?thesis by (rule that)
qed

lemma sqrt_rel:
  assumes Q: "0 \<le> Q" and d: "0 \<le> d" "d \<le> 1" and s: "\<bar>s - Q\<bar> \<le> d * Q"
  shows "\<bar>sqrt s - sqrt Q\<bar> \<le> d * sqrt Q"
proof -
  define N where "N = sqrt Q"
  have N: "0 \<le> N" "N * N = Q"
    using Q by (simp_all add: N_def)
  have "(1 - d) * (1 - d) \<le> 1 - d"
    using d by (intro mult_left_le) simp_all
  then have "Q * ((1 - d) * (1 - d)) \<le> Q * (1 - d)"
    using Q by (rule mult_left_mono)
  moreover have "(N * (1 - d))\<^sup>2 = Q * ((1 - d) * (1 - d))"
    by (simp add: power2_eq_square N(2) [symmetric] algebra_simps)
  moreover have "Q * (1 - d) \<le> s"
    using s by (simp add: algebra_simps abs_le_iff)
  ultimately have "(N * (1 - d))\<^sup>2 \<le> s"
    by linarith
  then have lo: "N * (1 - d) \<le> sqrt s"
    by (rule real_le_rsqrt)
  have "0 \<le> d * (1 + d)"
    using d by simp
  moreover have "(1 + d) * (1 + d) = (1 + d) + d * (1 + d)"
    by (simp add: algebra_simps)
  ultimately have "1 + d \<le> (1 + d) * (1 + d)"
    by linarith
  then have "Q * (1 + d) \<le> Q * ((1 + d) * (1 + d))"
    using Q by (rule mult_left_mono)
  moreover have "(N * (1 + d))\<^sup>2 = Q * ((1 + d) * (1 + d))"
    by (simp add: power2_eq_square N(2) [symmetric] algebra_simps)
  moreover have "s \<le> Q * (1 + d)"
    using s by (simp add: algebra_simps abs_le_iff)
  ultimately have "s \<le> (N * (1 + d))\<^sup>2"
    by linarith
  moreover have "0 \<le> N * (1 + d)"
    using N(1) d by simp
  ultimately have hi: "sqrt s \<le> N * (1 + d)"
    by (intro real_le_lsqrt)
  from lo hi show ?thesis
    unfolding N_def [symmetric] by (simp add: algebra_simps abs_le_iff)
qed

lemma sq_close:
  fixes r c :: real
  assumes "\<bar>r - c\<bar> \<le> b" and "\<bar>c\<bar> \<le> 2" and "b \<le> 1"
  shows "\<bar>r * r - c * c\<bar> \<le> 5 * b"
proof -
  have "r * r - c * c = (r - c) * (r + c)"
    by (simp add: algebra_simps)
  then have "\<bar>r * r - c * c\<bar> = \<bar>r - c\<bar> * \<bar>r + c\<bar>"
    by (simp add: abs_mult)
  also have "\<dots> \<le> b * 5"
    using assms by (intro mult_mono) (simp_all add: abs_le_iff; linarith)+
  finally show ?thesis by simp
qed

section \<open>The norm of the estimated quaternion\<close>

text \<open>
  The sum of the four squares of line 184, as the code computes it, is within a relative
  error of \<open>2 ^ - 48\<close> of the exact sum when that lies between \<open>2 ^ - 1000\<close> and
  \<open>2 ^ 1000\<close>, where no product underflows or overflows.
\<close>

lemma sum_squares64:
  fixes q1 q2 q3 q4 :: real
  assumes Q: "Q = q1 * q1 + q2 * q2 + q3 * q3 + q4 * q4"
    and lo: "1 / 2 ^ 1000 \<le> Q" and hi: "Q \<le> 2 ^ 1000"
  obtains s where
    "B64 (Fin q1) * B64 (Fin q1) + B64 (Fin q2) * B64 (Fin q2) + B64 (Fin q3) * B64 (Fin q3)
       + B64 (Fin q4) * B64 (Fin q4) = B64 (Fin s)"
    and "\<bar>s - Q\<bar> \<le> 1 / 2 ^ 48 * Q"
proof -
  define E where "E = 2 * Q / 2 ^ 53 + 1 / 2 ^ 1075"
  have Q0: "0 < Q"
    using lo by (rule less_le_trans [rotated]) simp
  have "(1::real) / 2 ^ 1000 / 2 ^ 75 \<le> Q / 2 ^ 75"
    using lo by (rule divide_right_mono) simp
  then have eta: "(1::real) / 2 ^ 1075 \<le> Q / 2 ^ 75"
    by simp
  have E: "0 \<le> E" "E \<le> Q / 2 ^ 51"
    using Q0 eta by (simp_all add: E_def)
  have E8: "8 * E \<le> Q"
    using E(2) Q0 by simp
  have B: "2 * Q < 2 ^ 1023"
    using hi by simp
  define a1 a2 a3 a4 where "a1 = q1 * q1" and "a2 = q2 * q2" and "a3 = q3 * q3" and "a4 = q4 * q4"
  have sq: "0 \<le> a1" "0 \<le> a2" "0 \<le> a3" "0 \<le> a4"
    by (simp_all add: a1_def a2_def a3_def a4_def)
  have Qa: "Q = a1 + a2 + a3 + a4"
    by (simp add: Q a1_def a2_def a3_def a4_def)
  have "\<bar>a1\<bar> \<le> 2 * Q" "\<bar>a2\<bar> \<le> 2 * Q" "\<bar>a3\<bar> \<le> 2 * Q" "\<bar>a4\<bar> \<le> 2 * Q"
    using sq by (simp_all add: Qa)
  then obtain t1 t2 t3 t4
    where t: "round64 a1 = Fin t1" "round64 a2 = Fin t2" "round64 a3 = Fin t3" "round64 a4 = Fin t4"
      and te: "\<bar>t1 - a1\<bar> \<le> E" "\<bar>t2 - a2\<bar> \<le> E" "\<bar>t3 - a3\<bar> \<le> E" "\<bar>t4 - a4\<bar> \<le> E"
    unfolding E_def using B by (metis round64_within)
  have "\<bar>t1 + t2\<bar> \<le> 2 * Q"
    using te sq E(1) E8 Q0 Qa by linarith
  then obtain s1 where s1: "round64 (t1 + t2) = Fin s1" "\<bar>s1 - (t1 + t2)\<bar> \<le> E"
    unfolding E_def using B by (metis round64_within)
  have "\<bar>s1 + t3\<bar> \<le> 2 * Q"
    using s1(2) te sq E(1) E8 Q0 Qa by linarith
  then obtain s2 where s2: "round64 (s1 + t3) = Fin s2" "\<bar>s2 - (s1 + t3)\<bar> \<le> E"
    unfolding E_def using B by (metis round64_within)
  have "\<bar>s2 + t4\<bar> \<le> 2 * Q"
    using s1(2) s2(2) te sq E(1) E8 Q0 Qa by linarith
  then obtain s where s: "round64 (s2 + t4) = Fin s" "\<bar>s - (s2 + t4)\<bar> \<le> E"
    unfolding E_def using B by (metis round64_within)
  have "\<bar>s - Q\<bar> \<le> 7 * E"
    using s(2) s1(2) s2(2) te Qa by linarith
  also have "\<dots> \<le> 1 / 2 ^ 48 * Q"
    using E(2) Q0 by simp
  finally have "\<bar>s - Q\<bar> \<le> 1 / 2 ^ 48 * Q" .
  moreover have "B64 (Fin q1) * B64 (Fin q1) + B64 (Fin q2) * B64 (Fin q2)
      + B64 (Fin q3) * B64 (Fin q3) + B64 (Fin q4) * B64 (Fin q4) = B64 (Fin s)"
    using t by (simp add: a1_def a2_def a3_def a4_def s1(1) s2(1) s(1))
  ultimately show ?thesis
    using that by blast
qed

lemma abs_le_2_of_square:
  fixes c :: real
  assumes "c * c \<le> 4"
  shows "\<bar>c\<bar> \<le> 2"
proof -
  have "c\<^sup>2 \<le> 2\<^sup>2"
    using assms by (simp add: power2_eq_square)
  then have "\<bar>c\<bar> \<le> \<bar>2::real\<bar>"
    by (simp only: abs_le_square_iff)
  then show ?thesis by simp
qed

lemma unit_after:
  fixes c1 c2 c3 c4 r1 r2 r3 r4 rho :: real
  assumes cs: "c1 * c1 + c2 * c2 + c3 * c3 + c4 * c4 = rho * rho"
    and rho: "\<bar>rho - 1\<bar> \<le> 1 / 2 ^ 46"
    and r: "\<bar>r1 - c1\<bar> \<le> 1 / 2 ^ 51" "\<bar>r2 - c2\<bar> \<le> 1 / 2 ^ 51"
      "\<bar>r3 - c3\<bar> \<le> 1 / 2 ^ 51" "\<bar>r4 - c4\<bar> \<le> 1 / 2 ^ 51"
  shows "\<bar>sqrt (r1 * r1 + r2 * r2 + r3 * r3 + r4 * r4) - 1\<bar> \<le> 1 / 10 ^ 6"
proof -
  define P where "P = rho * rho"
  define x1 x2 x3 x4 where "x1 = c1 * c1" and "x2 = c2 * c2" and "x3 = c3 * c3" and "x4 = c4 * c4"
  define y1 y2 y3 y4 where "y1 = r1 * r1" and "y2 = r2 * r2" and "y3 = r3 * r3" and "y4 = r4 * r4"
  define t where "t = (1::real) / 10 ^ 7"
  have t: "0 \<le> t" "t \<le> 1"
    by (simp_all add: t_def)
  have "\<bar>rho * rho - 1 * 1\<bar> \<le> 5 * (1 / 2 ^ 46)"
    using rho by (intro sq_close) simp_all
  then have P: "\<bar>P - 1\<bar> \<le> t"
    by (simp add: P_def t_def)
  have x: "0 \<le> x1" "0 \<le> x2" "0 \<le> x3" "0 \<le> x4"
    by (simp_all add: x1_def x2_def x3_def x4_def)
  have xs: "x1 + x2 + x3 + x4 = P"
    using cs by (simp add: x1_def x2_def x3_def x4_def P_def)
  have "x1 \<le> 4"
    using x xs P t by linarith
  moreover have "x2 \<le> 4"
    using x xs P t by linarith
  moreover have "x3 \<le> 4"
    using x xs P t by linarith
  moreover have "x4 \<le> 4"
    using x xs P t by linarith
  ultimately have c: "\<bar>c1\<bar> \<le> 2" "\<bar>c2\<bar> \<le> 2" "\<bar>c3\<bar> \<le> 2" "\<bar>c4\<bar> \<le> 2"
    unfolding x1_def x2_def x3_def x4_def by (simp_all add: abs_le_2_of_square)
  have "\<bar>y1 - x1\<bar> \<le> 5 * (1 / 2 ^ 51)"
    unfolding x1_def y1_def using r(1) c(1) by (intro sq_close) simp_all
  then have y1: "\<bar>y1 - x1\<bar> \<le> t"
    by (simp add: t_def)
  have "\<bar>y2 - x2\<bar> \<le> 5 * (1 / 2 ^ 51)"
    unfolding x2_def y2_def using r(2) c(2) by (intro sq_close) simp_all
  then have y2: "\<bar>y2 - x2\<bar> \<le> t"
    by (simp add: t_def)
  have "\<bar>y3 - x3\<bar> \<le> 5 * (1 / 2 ^ 51)"
    unfolding x3_def y3_def using r(3) c(3) by (intro sq_close) simp_all
  then have y3: "\<bar>y3 - x3\<bar> \<le> t"
    by (simp add: t_def)
  have "\<bar>y4 - x4\<bar> \<le> 5 * (1 / 2 ^ 51)"
    unfolding x4_def y4_def using r(4) c(4) by (intro sq_close) simp_all
  then have y4: "\<bar>y4 - x4\<bar> \<le> t"
    by (simp add: t_def)
  have "\<bar>(y1 + y2 + y3 + y4) - 1\<bar> \<le> 5 * t"
    using y1 y2 y3 y4 xs P by linarith
  then have "\<bar>(y1 + y2 + y3 + y4) - 1\<bar> \<le> 1 / 10 ^ 6 * 1"
    by (simp add: t_def)
  then have "\<bar>sqrt (y1 + y2 + y3 + y4) - sqrt 1\<bar> \<le> 1 / 10 ^ 6 * sqrt 1"
    by (intro sqrt_rel) simp_all
  then show ?thesis
    by (simp add: y1_def y2_def y3_def y4_def)
qed

text \<open>
  Lines 183-188 in rounded arithmetic: the four quotients are finite and the norm of the
  quaternion they form is 1 within \<open>10 ^ - 6\<close>.
\<close>

lemma abs_le_sqrt:
  fixes q :: real
  assumes "q * q \<le> Q"
  shows "\<bar>q\<bar> \<le> sqrt Q"
proof -
  have "\<bar>q\<bar>\<^sup>2 \<le> Q"
    using assms by (simp add: power2_eq_square)
  then show ?thesis by (rule real_le_rsqrt)
qed

lemma normalise4_64_unit:
  fixes q1 q2 q3 q4 :: real
  assumes Q: "Q = q1 * q1 + q2 * q2 + q3 * q3 + q4 * q4"
    and lo: "1 / 2 ^ 1000 \<le> Q" and hi: "Q \<le> 2 ^ 1000"
  shows "\<exists>r1 r2 r3 r4.
           normalise4_64 (B64 (Fin q1), B64 (Fin q2), B64 (Fin q3), B64 (Fin q4))
             = (B64 (Fin r1), B64 (Fin r2), B64 (Fin r3), B64 (Fin r4))
           \<and> \<bar>sqrt (r1 * r1 + r2 * r2 + r3 * r3 + r4 * r4) - 1\<bar> \<le> 1 / 10 ^ 6"
proof -
  define N where "N = sqrt Q"
  define g where "g = N / 2 ^ 49"
  have Q0: "0 < Q"
    using lo by (rule less_le_trans [rotated]) simp
  have NN: "N * N = Q" and N0: "0 < N"
    using Q0 by (simp_all add: N_def)
  have "(1 / 2 ^ 500)\<^sup>2 \<le> Q"
    using lo by (simp add: power_divide)
  then have Nlo: "1 / 2 ^ 500 \<le> N"
    unfolding N_def by (rule real_le_rsqrt)
  have "Q \<le> (2 ^ 500)\<^sup>2"
    using hi by simp
  then have Nhi: "N \<le> 2 ^ 500"
    unfolding N_def by (intro real_le_lsqrt) simp_all
  have g: "0 < g" "8 * g \<le> N"
    using N0 by (simp_all add: g_def)
  from sum_squares64 [OF Q lo hi] obtain s
    where s: "B64 (Fin q1) * B64 (Fin q1) + B64 (Fin q2) * B64 (Fin q2)
        + B64 (Fin q3) * B64 (Fin q3) + B64 (Fin q4) * B64 (Fin q4) = B64 (Fin s)"
      and se: "\<bar>s - Q\<bar> \<le> 1 / 2 ^ 48 * Q"
    by blast
  have "\<bar>sqrt s - sqrt Q\<bar> \<le> 1 / 2 ^ 48 * sqrt Q"
    using Q0 se by (intro sqrt_rel) simp_all
  then have rs: "\<bar>sqrt s - N\<bar> \<le> 2 * g"
    by (simp add: N_def g_def)
  have s0: "\<not> s < 0"
  proof -
    have "1 / 2 ^ 48 * Q \<le> Q"
      using Q0 by simp
    with se Q0 show ?thesis by linarith
  qed
  have "\<bar>sqrt s\<bar> \<le> 2 * N"
    using rs g N0 by linarith
  moreover have "2 * N < 2 ^ 1023"
    using Nhi by simp
  ultimately obtain n where n: "round64 (sqrt s) = Fin n"
      and ne: "\<bar>n - sqrt s\<bar> \<le> 2 * N / 2 ^ 53 + 1 / 2 ^ 1075"
    by (rule round64_within)
  have "(1::real) / 2 ^ 500 / 2 ^ 575 \<le> N / 2 ^ 575"
    using Nlo by (rule divide_right_mono) simp
  then have "(1::real) / 2 ^ 1075 \<le> N / 2 ^ 575"
    by simp
  then have "2 * N / 2 ^ 53 + 1 / 2 ^ 1075 \<le> g"
    using N0 by (simp add: g_def)
  with ne have ne': "\<bar>n - sqrt s\<bar> \<le> g"
    by linarith
  have nN: "\<bar>n - N\<bar> \<le> 4 * g"
    using ne' rs g by linarith
  have n0: "0 < n" and Nn: "N \<le> 2 * n"
    using nN g N0 by linarith+
  have "quat_norm64 (B64 (Fin q1), B64 (Fin q2), B64 (Fin q3), B64 (Fin q4)) = sqrt64 (B64 (Fin s))"
    by (simp only: quat_norm64_def prod.case s)
  then have norm: "quat_norm64 (B64 (Fin q1), B64 (Fin q2), B64 (Fin q3), B64 (Fin q4)) = B64 (Fin n)"
    using s0 by (simp add: n)
  have sq: "0 \<le> q1 * q1" "0 \<le> q2 * q2" "0 \<le> q3 * q3" "0 \<le> q4 * q4"
    by simp_all
  have qN: "\<bar>q1\<bar> \<le> N" "\<bar>q2\<bar> \<le> N" "\<bar>q3\<bar> \<le> N" "\<bar>q4\<bar> \<le> N"
    unfolding N_def using sq by (intro abs_le_sqrt; simp add: Q)+
  have c: "\<bar>q1 / n\<bar> \<le> 2" "\<bar>q2 / n\<bar> \<le> 2" "\<bar>q3 / n\<bar> \<le> 2" "\<bar>q4 / n\<bar> \<le> 2"
    using qN Nn n0 by (simp_all add: abs_divide pos_divide_le_eq)
  have small: "(2::real) / 2 ^ 53 + 1 / 2 ^ 1075 \<le> 1 / 2 ^ 51" and big: "(2::real) < 2 ^ 1023"
    by simp_all
  from round64_within [OF c(1) big] small obtain r1
    where r1: "round64 (q1 / n) = Fin r1" "\<bar>r1 - q1 / n\<bar> \<le> 1 / 2 ^ 51"
    by (metis order_trans)
  from round64_within [OF c(2) big] small obtain r2
    where r2: "round64 (q2 / n) = Fin r2" "\<bar>r2 - q2 / n\<bar> \<le> 1 / 2 ^ 51"
    by (metis order_trans)
  from round64_within [OF c(3) big] small obtain r3
    where r3: "round64 (q3 / n) = Fin r3" "\<bar>r3 - q3 / n\<bar> \<le> 1 / 2 ^ 51"
    by (metis order_trans)
  from round64_within [OF c(4) big] small obtain r4
    where r4: "round64 (q4 / n) = Fin r4" "\<bar>r4 - q4 / n\<bar> \<le> 1 / 2 ^ 51"
    by (metis order_trans)
  have res: "normalise4_64 (B64 (Fin q1), B64 (Fin q2), B64 (Fin q3), B64 (Fin q4))
      = (B64 (Fin r1), B64 (Fin r2), B64 (Fin r3), B64 (Fin r4))"
    using n0 by (simp add: normalise4_64_def norm r1(1) r2(1) r3(1) r4(1))
  define rho where "rho = N / n"
  have "q1 / n * (q1 / n) + q2 / n * (q2 / n) + q3 / n * (q3 / n) + q4 / n * (q4 / n)
      = Q / (n * n)"
    by (simp add: Q add_divide_distrib)
  also have "\<dots> = rho * rho"
    by (simp add: rho_def NN)
  finally have cs: "q1 / n * (q1 / n) + q2 / n * (q2 / n) + q3 / n * (q3 / n)
      + q4 / n * (q4 / n) = rho * rho" .
  have "4 * g = 1 / 2 ^ 47 * N"
    by (simp add: g_def)
  then have "4 * g \<le> 1 / 2 ^ 46 * n"
    using Nn by simp
  with nN have "\<bar>N - n\<bar> \<le> 1 / 2 ^ 46 * n"
    by linarith
  then have "\<bar>N - n\<bar> / n \<le> 1 / 2 ^ 46"
    using n0 by (simp add: pos_divide_le_eq)
  moreover have "rho - 1 = (N - n) / n"
    using n0 by (simp add: rho_def diff_divide_distrib)
  ultimately have rho: "\<bar>rho - 1\<bar> \<le> 1 / 2 ^ 46"
    using n0 by (simp add: abs_divide)
  from unit_after [OF cs rho r1(2) r2(2) r3(2) r4(2)] res show ?thesis
    by blast
qed

lemma SEq_updateFilter64:
  "SEq (updateFilter64 st wx wy wz ax ay az mx my mz)
     = (case normalise4_64 (SEq_integrated64 st (B64 wx, B64 wy, B64 wz) (B64 ax, B64 ay, B64 az)
                (B64 mx, B64 my, B64 mz)) of
          (r1, r2, r3, r4) \<Rightarrow> (the_double r1, the_double r2, the_double r3, the_double r4))"
  by (simp add: updateFilter64_def SEq_def store_auxiliary_def Let_def split: prod.splits)

text \<open>
  Claim C1, as amended. For every state whose \<open>SEq\<close> has norm 1 within \<open>10 ^ - 6\<close>
  and every input whose accelerometer and magnetometer vectors are valid (finite, with
  nonzero norm), if the quaternion integrated at lines 179-182 is finite and the sum of
  the squares of its components lies between \<open>2 ^ - 1000\<close> and \<open>2 ^ 1000\<close>, then
  after \<open>updateFilter\<close> returns \<open>SEq\<close> is finite and has Euclidean norm 1 within
  \<open>10 ^ - 6\<close>, in double-precision arithmetic.
\<close>

theorem updateFilter64_unit_norm:
  assumes "unit_within (1 / 10 ^ 6) (SEq st)"
    and "valid_measurement (ax, ay, az)" and "valid_measurement (mx, my, mz)"
    and q: "SEq_integrated64 st (B64 wx, B64 wy, B64 wz) (B64 ax, B64 ay, B64 az)
              (B64 mx, B64 my, B64 mz)
            = (B64 (Fin q1), B64 (Fin q2), B64 (Fin q3), B64 (Fin q4))"
    and lo: "1 / 2 ^ 1000 \<le> q1 * q1 + q2 * q2 + q3 * q3 + q4 * q4"
    and hi: "q1 * q1 + q2 * q2 + q3 * q3 + q4 * q4 \<le> 2 ^ 1000"
  shows "unit_within (1 / 10 ^ 6) (SEq (updateFilter64 st wx wy wz ax ay az mx my mz))"
proof -
  from normalise4_64_unit [OF refl lo hi] obtain r1 r2 r3 r4
    where r: "normalise4_64 (B64 (Fin q1), B64 (Fin q2), B64 (Fin q3), B64 (Fin q4))
        = (B64 (Fin r1), B64 (Fin r2), B64 (Fin r3), B64 (Fin r4))"
      and u: "\<bar>sqrt (r1 * r1 + r2 * r2 + r3 * r3 + r4 * r4) - 1\<bar> \<le> 1 / 10 ^ 6"
    by blast
  have "SEq (updateFilter64 st wx wy wz ax ay az mx my mz) = (Fin r1, Fin r2, Fin r3, Fin r4)"
    by (simp only: SEq_updateFilter64 q r prod.case binary64.sel)
  with u show ?thesis
    by (simp add: unit_within_def)
qed

text \<open>
  The theorem applies to the filter with gains 1/2 turning at 4 rad/s about its first
  axis, accelerometer and magnetometer \<open>(1, 0, 0)\<close>: the gradient is \<open>(0, 0, 2, 0)\<close>,
  the new bias is \<open>(0, 1/2, 0)\<close>, the integrated quaternion is \<open>(1, 1, -3/8, 0)\<close>
  and lines 185-188 divide by the rounded square root of \<open>137 / 64\<close>.
\<close>

lemma tuned64_members:
  "SEq_1 tuned64 = Fin 1" "SEq_2 tuned64 = Fin 0" "SEq_3 tuned64 = Fin 0" "SEq_4 tuned64 = Fin 0"
  "b_x tuned64 = Fin 1" "b_z tuned64 = Fin 0"
  "w_bx tuned64 = Fin 0" "w_by tuned64 = Fin 0" "w_bz tuned64 = Fin 0"
  "deltat tuned64 = Fin (1 / 2)" "beta tuned64 = Fin (1 / 2)" "zeta tuned64 = Fin (1 / 2)"
  by (simp_all add: tuned64_def margFilter64_def MARGfilter_ctor64_def)

lemma round64_dyadic [simp]:
  "round64 (- (1 / 2)) = Fin (- (1 / 2))"
  "round64 (1 / 4) = Fin (1 / 4)"
  "round64 (- (1 / 4)) = Fin (- (1 / 4))"
  "round64 (- (3 / 4)) = Fin (- (3 / 4))"
  "round64 (- (3 / 8)) = Fin (- (3 / 8))"
  by (rule round64_exact [where k = "- 1" and j = "- 1"], simp_all add: powr_minus_divide)
     (rule round64_exact [where k = 1 and j = "- 2"], simp_all add: powr_minus_divide,
      rule round64_exact [where k = "- 1" and j = "- 2"], simp_all add: powr_minus_divide,
      rule round64_exact [where k = "- 3" and j = "- 2"], simp_all add: powr_minus_divide,
      rule round64_exact [where k = "- 3" and j = "- 3"], simp_all add: powr_minus_divide)

lemma tuned64_integrated:
  "SEq_integrated64 tuned64 (B64 (Fin 4), B64 (Fin 0), B64 (Fin 0))
      (B64 (Fin 1), B64 (Fin 0), B64 (Fin 0)) (B64 (Fin 1), B64 (Fin 0), B64 (Fin 0))
     = (B64 (Fin 1), B64 (Fin 1), B64 (Fin (- (3 / 8))), B64 (Fin 0))"
  by (simp add: SEq_integrated64_def SEqHatDot64_def normalise3_64_def vec_norm64_def gradient64_def
      normalise4_64_def quat_norm64_def w_err64_def gyro_bias64_def integrate64_def
      SEqDot_omega64_def Let_def tuned64_members)

theorem updateFilter64_unit_norm_witness:
  "unit_within (1 / 10 ^ 6) (SEq tuned64)
   \<and> valid_measurement (Fin 1, Fin 0, Fin 0)
   \<and> SEq_integrated64 tuned64 (B64 (Fin 4), B64 (Fin 0), B64 (Fin 0))
        (B64 (Fin 1), B64 (Fin 0), B64 (Fin 0)) (B64 (Fin 1), B64 (Fin 0), B64 (Fin 0))
       = (B64 (Fin 1), B64 (Fin 1), B64 (Fin (- (3 / 8))), B64 (Fin 0))
   \<and> (1::real) / 2 ^ 1000 \<le> 1 * 1 + 1 * 1 + - (3 / 8) * - (3 / 8) + 0 * 0
   \<and> (1::real) * 1 + 1 * 1 + - (3 / 8) * - (3 / 8) + 0 * 0 \<le> 2 ^ 1000
   \<and> unit_within (1 / 10 ^ 6)
        (SEq (updateFilter64 tuned64 (Fin 4) (Fin 0) (Fin 0) (Fin 1) (Fin 0) (Fin 0) (Fin 1) (Fin 0) (Fin 0)))"
proof -
  have u: "unit_within (1 / 10 ^ 6) (SEq tuned64)"
    by (simp add: unit_within_def SEq_def tuned64_members)
  have v: "valid_measurement (Fin 1, Fin 0, Fin 0)"
    by (simp add: valid_measurement_def)
  have lo: "(1::real) / 2 ^ 1000 \<le> 1 * 1 + 1 * 1 + - (3 / 8) * - (3 / 8) + 0 * 0"
    by simp
  have hi: "(1::real) * 1 + 1 * 1 + - (3 / 8) * - (3 / 8) + 0 * 0 \<le> 2 ^ 1000"
    by simp
  from updateFilter64_unit_norm [OF u v v tuned64_integrated lo hi] u v tuned64_integrated lo hi
  show ?thesis by blast
qed

text \<open>
  The claim as stated fails: the example's filter object, level and at rest
  (accelerometer \<open>(0, 0, 1)\<close>, magnetometer \<open>(1, 0, 0)\<close>, no rotation), has a zero
  gradient; line 158 divides zero by zero and every component of \<open>SEq\<close> becomes NaN.
\<close>

lemmas filter64_defs =
  updateFilter64_def SEq_integrated64_def SEqHatDot64_def normalise3_64_def vec_norm64_def
  gradient64_def normalise4_64_def quat_norm64_def w_err64_def gyro_bias64_def integrate64_def
  SEqDot_omega64_def flux64_def store_auxiliary_def SEq_def Let_def

lemma rest64:
  "SEq (updateFilter64 margFilter64 (Fin 0) (Fin 0) (Fin 0) (Fin 0) (Fin 0) (Fin 1) (Fin 1) (Fin 0) (Fin 0))
       = (NaN, NaN, NaN, NaN)"
  by (simp add: filter64_defs margFilter64_def MARGfilter_ctor64_def zero_storage_def)

theorem updateFilter64_unit_norm_counterexample:
  "unit_within (1 / 10 ^ 6) (SEq margFilter64)
   \<and> valid_measurement (Fin 0, Fin 0, Fin 1)
   \<and> valid_measurement (Fin 1, Fin 0, Fin 0)
   \<and> SEq (updateFilter64 margFilter64 (Fin 0) (Fin 0) (Fin 0) (Fin 0) (Fin 0) (Fin 1) (Fin 1) (Fin 0) (Fin 0))
       = (NaN, NaN, NaN, NaN)
   \<and> \<not> unit_within (1 / 10 ^ 6)
        (SEq (updateFilter64 margFilter64 (Fin 0) (Fin 0) (Fin 0) (Fin 0) (Fin 0) (Fin 1) (Fin 1) (Fin 0) (Fin 0)))"
proof -
  have "unit_within (1 / 10 ^ 6) (SEq margFilter64)"
    by (simp add: unit_within_def SEq_def margFilter64_def MARGfilter_ctor64_def)
  moreover have "valid_measurement (Fin 0, Fin 0, Fin 1)" "valid_measurement (Fin 1, Fin 0, Fin 0)"
    by (simp_all add: valid_measurement_def)
  ultimately show ?thesis
    by (simp add: rest64 unit_within_def)
qed

end
